theory Spec2Isabelle
  imports Complex_Main "HOL-Library.Multiset"
begin

section \<open>The parking3 location-sharing server\<close>

text \<open>
  The repository holds two versions of the Express server. \<^verbatim>\<open>src/backend/app.js\<close> is the
  current one: bcrypt-hashed passwords, JWT login, a protected \<^verbatim>\<open>GET /locations\<close>.
  \<^verbatim>\<open>src/unnamed/part_000\<close> is the legacy one: plaintext passwords, a \<^verbatim>\<open>GET /login\<close>,
  \<^verbatim>\<open>POST /send-location\<close> and \<^verbatim>\<open>GET /users\<close>. Definitions of the legacy file carry the prefix
  \<open>legacy_\<close>; a route handler, anonymous in the source, is named after its method and path.

  Each handler is a function from the request's inputs and the store to a response and the
  store afterwards. What a handler draws from its surroundings is an argument: the clock
  reading \<open>now\<close> (milliseconds), the salt bcrypt draws, the two npm packages
  (\<open>bcrypt\<close>, \<open>jsonwebtoken\<close>) as a record of functions, and the language's conversion
  of strings, arrays and objects to numbers.
\<close>

subsection \<open>JavaScript values\<close>

text \<open>A JavaScript number: a finite value, or one of the three non-finite ones.\<close>

datatype jsnum = Finite real | PosInfinity | NegInfinity | NaN

fun finite_number :: "jsnum \<Rightarrow> bool" where
  "finite_number (Finite r) = True"
| "finite_number PosInfinity = False"
| "finite_number NegInfinity = False"
| "finite_number NaN = False"

text \<open>\<^verbatim>\<open>x < c\<close> and \<^verbatim>\<open>x > c\<close> for a finite constant \<open>c\<close>; every comparison with NaN is false.\<close>

fun js_lt :: "jsnum \<Rightarrow> real \<Rightarrow> bool" where
  "js_lt (Finite r) c = (r < c)"
| "js_lt PosInfinity c = False"
| "js_lt NegInfinity c = True"
| "js_lt NaN c = False"

fun js_gt :: "jsnum \<Rightarrow> real \<Rightarrow> bool" where
  "js_gt (Finite r) c = (c < r)"
| "js_gt PosInfinity c = True"
| "js_gt NegInfinity c = False"
| "js_gt NaN c = False"

text \<open>
  A value of a parsed JSON body. A number is the double that \<^verbatim>\<open>express.json()\<close> has made of
  its text.
\<close>

datatype jsval =
    JNull
  | JBool bool
  | JNum jsnum
  | JStr string
  | JArr "jsval list"
  | JObj "(string \<times> jsval) list"

text \<open>What a handler's \<^verbatim>\<open>try\<close> block can throw; \<^verbatim>\<open>error.message\<close> is the string.\<close>

datatype exn = StoreError string | ReferenceError string | TypeError string | PackageError string

fun message :: "exn \<Rightarrow> string" where
  "message (StoreError m) = m"
| "message (ReferenceError m) = m"
| "message (TypeError m) = m"
| "message (PackageError m) = m"

text \<open>
  ECMAScript's ToNumber. On \<^verbatim>\<open>null\<close>, a boolean and a number it is written out. On a
  string, an array and an object it goes through the string grammar of the language (and
  ToPrimitive, which throws a TypeError on an object whose \<^verbatim>\<open>toString\<close> and \<^verbatim>\<open>valueOf\<close>
  are not callable); that part is the argument \<open>conv\<close>, and what is proved holds for
  every \<open>conv\<close>.
\<close>

type_synonym conversion = "jsval \<Rightarrow> exn + jsnum"

fun ToNumber :: "conversion \<Rightarrow> jsval \<Rightarrow> exn + jsnum" where
  "ToNumber conv JNull = Inr (Finite 0)"
| "ToNumber conv (JBool b) = Inr (Finite (if b then 1 else 0))"
| "ToNumber conv (JNum x) = Inr x"
| "ToNumber conv (JStr x) = conv (JStr x)"
| "ToNumber conv (JArr xs) = conv (JArr xs)"
| "ToNumber conv (JObj kvs) = conv (JObj kvs)"

text \<open>
  \<^verbatim>\<open>!isFinite(v) || v < -bound || v > bound\<close>. The global \<^verbatim>\<open>isFinite\<close> converts its
  argument with ToNumber, and so do \<^verbatim>\<open><\<close> and \<^verbatim>\<open>>\<close> against a number: the three see the
  same number, or the first conversion throws.
\<close>

definition out_of_range :: "conversion \<Rightarrow> jsval \<Rightarrow> real \<Rightarrow> exn + bool" where
  "out_of_range conv v bound =
     (case ToNumber conv v of
        Inl error \<Rightarrow> Inl error
      | Inr x \<Rightarrow> Inr (\<not> finite_number x \<or> js_lt x (- bound) \<or> js_gt x bound))"

text \<open>
  The fields a handler destructures from \<^verbatim>\<open>req.body\<close> (or \<^verbatim>\<open>req.query\<close>); \<open>None\<close> is a
  field that is absent (\<^verbatim>\<open>undefined\<close>). The forms of the frontend post \<open>username\<close>, \<open>email\<close>
  and \<open>password\<close> as strings, and for these \<open>None\<close> also stands for \<^verbatim>\<open>null\<close>. The two
  coordinates are any JSON value.
\<close>

record params =
  b_username :: "string option"
  b_email :: "string option"
  b_password :: "string option"
  b_latitude :: "jsval option"
  b_longitude :: "jsval option"

text \<open>\<^verbatim>\<open>v == null\<close>: true of \<^verbatim>\<open>undefined\<close> and \<^verbatim>\<open>null\<close> only.\<close>

fun nullish :: "jsval option \<Rightarrow> bool" where
  "nullish None = True"
| "nullish (Some v) = (v = JNull)"

fun val :: "jsval option \<Rightarrow> jsval" where
  "val None = JNull"
| "val (Some v) = v"

text \<open>\<^verbatim>\<open>!x\<close> on such a field: \<^verbatim>\<open>undefined\<close>, \<^verbatim>\<open>null\<close> and the empty string are falsy.\<close>

fun falsy :: "string option \<Rightarrow> bool" where
  "falsy None = True"
| "falsy (Some x) = (x = [])"

fun str :: "string option \<Rightarrow> string" where
  "str None = []"
| "str (Some x) = x"

text \<open>
  \<^verbatim>\<open>h.split(" ")\<close>: the pieces of \<open>h\<close> between single space characters. The result is never
  empty, and two adjacent spaces delimit an empty piece.
\<close>

fun split_space :: "string \<Rightarrow> string list" where
  "split_space [] = [[]]"
| "split_space (c # cs) =
     (if c = CHR '' '' then [] # split_space cs
      else (case split_space cs of [] \<Rightarrow> [[c]] | w # ws \<Rightarrow> (c # w) # ws))"

text \<open>\<^verbatim>\<open>xs[i]\<close>: \<^verbatim>\<open>undefined\<close> out of range.\<close>

fun index :: "'a list \<Rightarrow> nat \<Rightarrow> 'a option" where
  "index [] i = None"
| "index (x # xs) 0 = Some x"
| "index (x # xs) (Suc i) = index xs i"

subsection \<open>The document store\<close>

text \<open>
  Modelled from the spec: the Mongoose model \<^verbatim>\<open>./models/User\<close>, which both servers require
  and which is not among the sources. A User has an id, a username, an email and a password
  field (the spec's \<open>passwordHash\<close>; the handlers write and read it as \<open>password\<close>).
\<close>

record user =
  uid :: nat
  username :: string
  email :: string
  password :: string

text \<open>
  Modelled from the spec: the Mongoose model \<^verbatim>\<open>./models/Location\<close>, which both servers
  require and which is not among the sources. A LocationSample has an id, the two
  coordinates and \<open>createdAt\<close>, a timestamp in milliseconds. The coordinates are kept as
  the handler passes them to \<^verbatim>\<open>new Location\<close>: what the schema would cast or refuse is not
  known.
\<close>

record location =
  lid :: nat
  latitude :: jsval
  longitude :: jsval
  createdAt :: nat

text \<open>
  The two collections in insertion order, the next fresh id, and \<open>outage\<close>: \<open>Some msg\<close> when
  the database cannot be reached, so that every query rejects with an error of that message.
\<close>

record store =
  users :: "user list"
  locations :: "location list"
  next_id :: nat
  outage :: "string option"

text \<open>\<^verbatim>\<open>User.findOne({ email })\<close>: the first User with that email, in insertion order.\<close>

definition User_findOne :: "store \<Rightarrow> string \<Rightarrow> exn + user option" where
  "User_findOne s e =
     (case outage s of
        Some m \<Rightarrow> Inl (StoreError m)
      | None \<Rightarrow> Inr (find (\<lambda>u. email u = e) (users s)))"

text \<open>
  Modelled from the spec: \<^verbatim>\<open>new User({...})\<close> and \<^verbatim>\<open>save()\<close>. The id is assigned on
  creation and is fresh; saving appends the document. The unique index on \<open>email\<close> that the
  spec mentions is left out of \<open>User_save\<close> on purpose, so that uniqueness is a property of
  the handlers' own check.
\<close>

definition new_User :: "store \<Rightarrow> string \<Rightarrow> string \<Rightarrow> string \<Rightarrow> user" where
  "new_User s un em pw = \<lparr>uid = next_id s, username = un, email = em, password = pw\<rparr>"

definition User_save :: "user \<Rightarrow> store \<Rightarrow> exn + store" where
  "User_save u s =
     (case outage s of
        Some m \<Rightarrow> Inl (StoreError m)
      | None \<Rightarrow> Inr (s\<lparr>users := users s @ [u], next_id := Suc (next_id s)\<rparr>))"

text \<open>
  Modelled from the spec: \<^verbatim>\<open>new Location({...})\<close> and \<^verbatim>\<open>save()\<close>. The id is fresh and
  \<open>createdAt\<close> is assigned at write time: it is the clock reading.
\<close>

definition new_Location :: "store \<Rightarrow> nat \<Rightarrow> jsval \<Rightarrow> jsval \<Rightarrow> location" where
  "new_Location s now lat lon =
     \<lparr>lid = next_id s, latitude = lat, longitude = lon, createdAt = now\<rparr>"

definition Location_save :: "location \<Rightarrow> store \<Rightarrow> exn + store" where
  "Location_save l s =
     (case outage s of
        Some m \<Rightarrow> Inl (StoreError m)
      | None \<Rightarrow> Inr (s\<lparr>locations := locations s @ [l], next_id := Suc (next_id s)\<rparr>))"

text \<open>
  \<^verbatim>\<open>.sort("-createdAt")\<close>: descending by \<open>createdAt\<close>. Samples of equal \<open>createdAt\<close> keep
  their insertion order.
\<close>

fun insert_desc :: "location \<Rightarrow> location list \<Rightarrow> location list" where
  "insert_desc x [] = [x]"
| "insert_desc x (y # ys) =
     (if createdAt y < createdAt x then x # y # ys else y # insert_desc x ys)"

definition sort_desc :: "location list \<Rightarrow> location list" where
  "sort_desc xs = fold insert_desc xs []"

text \<open>\<^verbatim>\<open>Location.find().sort("-createdAt").limit(10)\<close>\<close>

definition Location_find_recent :: "store \<Rightarrow> exn + location list" where
  "Location_find_recent s =
     (case outage s of
        Some m \<Rightarrow> Inl (StoreError m)
      | None \<Rightarrow> Inr (take 10 (sort_desc (locations s))))"

text \<open>
  A stored User as the document the driver returns, and a projection that leaves fields out
  (\<^verbatim>\<open>{ password: 0 }\<close>).
\<close>

datatype bson = ObjectId nat | String string

type_synonym document = "(string \<times> bson) list"

definition toObject :: "user \<Rightarrow> document" where
  "toObject u =
     [(''_id'', ObjectId (uid u)), (''username'', String (username u)),
      (''email'', String (email u)), (''password'', String (password u))]"

definition exclude :: "string list \<Rightarrow> document \<Rightarrow> document" where
  "exclude ks d = filter (\<lambda>(k, v). k \<notin> set ks) d"

definition User_find :: "string list \<Rightarrow> store \<Rightarrow> exn + document list" where
  "User_find ks s =
     (case outage s of
        Some m \<Rightarrow> Inl (StoreError m)
      | None \<Rightarrow> Inr (map (\<lambda>u. exclude ks (toObject u)) (users s)))"

subsection \<open>Responses\<close>

record public_user =
  pu_id :: nat
  pu_username :: string
  pu_email :: string

datatype received = ReceivedBody params | ReceivedValue jsval

text \<open>The JSON bodies the handlers send, one constructor for each shape.\<close>

datatype resp_body =
    Error string
  | ErrorReceived string received
  | ErrorMessage string string
  | Message string
  | MessageUser string public_user
  | MessageTokenUser string string public_user
  | MessageLocation string location
  | Locations "location list"
  | Users "document list"

record response =
  status :: nat
  body :: resp_body

definition json :: "nat \<Rightarrow> resp_body \<Rightarrow> response" where
  "json code b = \<lparr>status = code, body = b\<rparr>"

subsection \<open>The npm packages\<close>

record payload =
  p_id :: nat
  p_email :: string

record decoded =
  d_id :: nat
  d_email :: string
  d_iat :: nat
  d_exp :: nat

datatype jwt_error = Malformed | InvalidSignature | Expired

text \<open>
  \<open>bcrypt_hash data rounds salt\<close> is \<^verbatim>\<open>bcrypt.hash(data, rounds)\<close> when the package draws
  \<open>salt\<close>; \<open>bcrypt_compare data encrypted\<close> is \<^verbatim>\<open>bcrypt.compare\<close>;
  \<open>jwt_sign payload secret expiresIn now\<close> is \<^verbatim>\<open>jwt.sign\<close> at clock reading \<open>now\<close>, with
  \<open>expiresIn\<close> in seconds; \<open>jwt_verify token secret now\<close> is \<^verbatim>\<open>jwt.verify\<close>, \<open>Inl\<close> its
  \<open>err\<close> (a missing secret is such an error). \<open>JWT_SECRET\<close> is
  \<^verbatim>\<open>process.env.JWT_SECRET\<close>, the empty string when the variable is unset or empty.
\<close>

record lib =
  bcrypt_hash :: "string \<Rightarrow> nat \<Rightarrow> string \<Rightarrow> string"
  bcrypt_compare :: "string \<Rightarrow> string \<Rightarrow> bool"
  jwt_sign :: "payload \<Rightarrow> string \<Rightarrow> nat \<Rightarrow> nat \<Rightarrow> string"
  jwt_verify :: "string \<Rightarrow> string \<Rightarrow> nat \<Rightarrow> jwt_error + decoded"
  JWT_SECRET :: string

text \<open>
  \<^verbatim>\<open>jwt.sign(payload, secret, { expiresIn })\<close> as a handler calls it: the package throws
  when the secret is unset or empty, and signs otherwise.
\<close>

definition sign_token :: "lib \<Rightarrow> payload \<Rightarrow> string \<Rightarrow> nat \<Rightarrow> nat \<Rightarrow> exn + string" where
  "sign_token L p secret expiresIn now =
     (if secret = [] then Inl (PackageError ''secretOrPrivateKey must have a value'')
      else Inr (jwt_sign L p secret expiresIn now))"

subsection \<open>The current server: \<^verbatim>\<open>src/backend/app.js\<close>\<close>

text \<open>
  The middleware either answers the request itself or calls \<^verbatim>\<open>next()\<close> with the decoded
  user attached to the request.
\<close>

datatype gate = Respond response | Next decoded

text \<open>\<^verbatim>\<open>req.headers.authorization?.split(" ")[1]\<close>\<close>

definition header_token :: "string option \<Rightarrow> string option" where
  "header_token authorization =
     (case authorization of None \<Rightarrow> None | Some h \<Rightarrow> index (split_space h) 1)"

definition authenticateJWT :: "lib \<Rightarrow> nat \<Rightarrow> string option \<Rightarrow> gate" where
  "authenticateJWT L now authorization =
     (let token = header_token authorization in
      if falsy token then Respond (json 401 (Error ''Access denied. No token provided.''))
      else (case jwt_verify L (str token) (JWT_SECRET L) now of
              Inl err \<Rightarrow> Respond (json 403 (Error ''Invalid token.''))
            | Inr user \<Rightarrow> Next user))"

definition post_register :: "lib \<Rightarrow> string \<Rightarrow> params \<Rightarrow> store \<Rightarrow> response \<times> store" where
  "post_register L salt b s =
     (if falsy (b_username b) \<or> falsy (b_email b) \<or> falsy (b_password b)
      then (json 400 (Error ''All fields are required''), s)
      else (case User_findOne s (str (b_email b)) of
              Inl error \<Rightarrow> (json 500 (ErrorMessage ''Server error'' (message error)), s)
            | Inr (Some existingUser) \<Rightarrow> (json 400 (Error ''Email is already registered.''), s)
            | Inr None \<Rightarrow>
                (let hashedPassword = bcrypt_hash L (str (b_password b)) 10 salt;
                     newUser = new_User s (str (b_username b)) (str (b_email b)) hashedPassword
                 in case User_save newUser s of
                      Inl error \<Rightarrow> (json 500 (ErrorMessage ''Server error'' (message error)), s)
                    | Inr s' \<Rightarrow> (json 201 (Message ''User registered successfully.''), s'))))"

definition post_login :: "lib \<Rightarrow> nat \<Rightarrow> params \<Rightarrow> store \<Rightarrow> response \<times> store" where
  "post_login L now b s =
     (if falsy (b_email b) \<or> falsy (b_password b)
      then (json 400 (Error ''Email and password are required.''), s)
      else (case User_findOne s (str (b_email b)) of
              Inl error \<Rightarrow> (json 500 (ErrorMessage ''Server error'' (message error)), s)
            | Inr None \<Rightarrow> (json 404 (Error ''User not found.''), s)
            | Inr (Some user) \<Rightarrow>
                (let isPasswordValid = bcrypt_compare L (str (b_password b)) (password user) in
                 if \<not> isPasswordValid
                 then (json 401 (Error ''Invalid email or password.''), s)
                 else (case sign_token L \<lparr>p_id = uid user, p_email = email user\<rparr>
                              (JWT_SECRET L) 3600 now of
                         Inl error \<Rightarrow>
                           (json 500 (ErrorMessage ''Server error'' (message error)), s)
                       | Inr token \<Rightarrow>
                           (json 200 (MessageTokenUser ''Login successful.'' token
                              \<lparr>pu_id = uid user, pu_username = username user,
                               pu_email = email user\<rparr>), s)))))"

text \<open>The handler of \<^verbatim>\<open>GET /locations\<close>, behind the middleware.\<close>

definition locations_handler :: "store \<Rightarrow> response \<times> store" where
  "locations_handler s =
     (case Location_find_recent s of
        Inl error \<Rightarrow> (json 500 (ErrorMessage ''Error fetching locations.'' (message error)), s)
      | Inr locs \<Rightarrow> (json 200 (Locations locs), s))"

definition get_locations :: "lib \<Rightarrow> nat \<Rightarrow> string option \<Rightarrow> store \<Rightarrow> response \<times> store" where
  "get_locations L now authorization s =
     (case authenticateJWT L now authorization of
        Respond r \<Rightarrow> (r, s)
      | Next user \<Rightarrow> locations_handler s)"

text \<open>
  A request as the router sees it. Paths are taken after Express's own normalisation (case
  folded, a trailing slash dropped). \<open>None\<close> from \<open>route\<close> is a request no API route
  matches: in production it falls through to the static files and \<^verbatim>\<open>index.html\<close>, otherwise
  to Express's 404; neither touches the store.
\<close>

datatype http_method = GET | POST | OtherMethod

record request =
  req_method :: http_method
  req_path :: string
  req_query :: params
  req_body :: params
  req_authorization :: "string option"
  req_now :: nat
  req_salt :: string

definition route :: "lib \<Rightarrow> request \<Rightarrow> store \<Rightarrow> (response \<times> store) option" where
  "route L req s =
     (if req_method req = POST \<and> req_path req = ''/register''
        then Some (post_register L (req_salt req) (req_body req) s)
      else if req_method req = POST \<and> req_path req = ''/login''
        then Some (post_login L (req_now req) (req_body req) s)
      else if req_method req = GET \<and> req_path req = ''/locations''
        then Some (get_locations L (req_now req) (req_authorization req) s)
      else None)"

subsection \<open>The legacy server: \<^verbatim>\<open>src/unnamed/part_000\<close>\<close>

definition legacy_post_send_location ::
  "conversion \<Rightarrow> nat \<Rightarrow> params \<Rightarrow> store \<Rightarrow> response \<times> store" where
  "legacy_post_send_location conv t b s =
     (if nullish (b_latitude b) \<or> nullish (b_longitude b)
      then (json 400 (ErrorReceived ''Missing required fields'' (ReceivedBody b)), s)
      else
        (let lat = val (b_latitude b); lon = val (b_longitude b) in
         case out_of_range conv lat 90 of
           Inl error \<Rightarrow> (json 500 (ErrorMessage ''Server error'' (message error)), s)
         | Inr True \<Rightarrow>
             (json 400 (ErrorReceived ''Invalid latitude value'' (ReceivedValue lat)), s)
         | Inr False \<Rightarrow>
             (case out_of_range conv lon 180 of
                Inl error \<Rightarrow> (json 500 (ErrorMessage ''Server error'' (message error)), s)
              | Inr True \<Rightarrow>
                  (json 400 (ErrorReceived ''Invalid longitude value'' (ReceivedValue lon)), s)
              | Inr False \<Rightarrow>
                  (let newLocation = new_Location s t lat lon in
                   case Location_save newLocation s of
                     Inl error \<Rightarrow>
                       (json 500 (ErrorMessage ''Server error'' (message error)), s)
                   | Inr s' \<Rightarrow>
                       (json 200 (MessageLocation ''Location saved successfully''
                          newLocation), s')))))"

definition legacy_get_locations :: "store \<Rightarrow> response \<times> store" where
  "legacy_get_locations s =
     (case Location_find_recent s of
        Inl error \<Rightarrow> (json 500 (ErrorMessage ''Error fetching locations'' (message error)), s)
      | Inr locs \<Rightarrow> (json 200 (Locations locs), s))"

definition legacy_get_users :: "store \<Rightarrow> response \<times> store" where
  "legacy_get_users s =
     (case User_find [''password''] s of
        Inl error \<Rightarrow> (json 500 (ErrorMessage ''Server error'' (message error)), s)
      | Inr us \<Rightarrow> (json 200 (Users us), s))"

definition legacy_post_register :: "params \<Rightarrow> store \<Rightarrow> response \<times> store" where
  "legacy_post_register b s =
     (if falsy (b_username b) \<or> falsy (b_email b) \<or> falsy (b_password b)
      then (json 400 (Error ''All fields are required''), s)
      else (case User_findOne s (str (b_email b)) of
              Inl error \<Rightarrow> (json 500 (ErrorMessage ''Server error'' (message error)), s)
            | Inr (Some existingUser) \<Rightarrow> (json 400 (Error ''Email is already registered''), s)
            | Inr None \<Rightarrow>
                (let newUser = new_User s (str (b_username b)) (str (b_email b)) (str (b_password b))
                 in case User_save newUser s of
                      Inl error \<Rightarrow> (json 500 (ErrorMessage ''Server error'' (message error)), s)
                    | Inr s' \<Rightarrow>
                        (json 201 (MessageUser ''User registered successfully''
                           \<lparr>pu_id = uid newUser, pu_username = username newUser,
                            pu_email = email newUser\<rparr>), s'))))"

definition legacy_post_login :: "params \<Rightarrow> store \<Rightarrow> response \<times> store" where
  "legacy_post_login b s =
     (if falsy (b_email b) \<or> falsy (b_password b)
      then (json 400 (Error ''Email and password are required''), s)
      else (case User_findOne s (str (b_email b)) of
              Inl error \<Rightarrow> (json 500 (ErrorMessage ''Server error'' (message error)), s)
            | Inr None \<Rightarrow> (json 404 (Error ''User not found''), s)
            | Inr (Some user) \<Rightarrow>
                (let isPasswordValid = (str (b_password b) = password user) in
                 if \<not> isPasswordValid
                 then (json 401 (Error ''Invalid email or password''), s)
                 else (json 200 (MessageUser ''Login successful''
                         \<lparr>pu_id = uid user, pu_username = username user,
                          pu_email = email user\<rparr>), s))))"

text \<open>
  The legacy file never requires \<^verbatim>\<open>bcrypt\<close>: the identifier is unbound there, and evaluating
  \<^verbatim>\<open>bcrypt.compare\<close> throws a ReferenceError, which the handler's \<^verbatim>\<open>catch\<close> turns into a 500.
\<close>

definition legacy_bcrypt :: "(string \<Rightarrow> string \<Rightarrow> bool) option" where
  "legacy_bcrypt = None"

definition legacy_bcrypt_compare :: "string \<Rightarrow> string \<Rightarrow> exn + bool" where
  "legacy_bcrypt_compare data encrypted =
     (case legacy_bcrypt of
        None \<Rightarrow> Inl (ReferenceError ''bcrypt is not defined'')
      | Some compare \<Rightarrow> Inr (compare data encrypted))"

text \<open>\<^verbatim>\<open>GET /login\<close> reads the credentials from \<^verbatim>\<open>req.query\<close>.\<close>

definition legacy_get_login :: "params \<Rightarrow> store \<Rightarrow> response \<times> store" where
  "legacy_get_login q s =
     (if falsy (b_email q) \<or> falsy (b_password q)
      then (json 400 (Error ''Email and password are required''), s)
      else (case User_findOne s (str (b_email q)) of
              Inl error \<Rightarrow> (json 500 (ErrorMessage ''Server error'' (message error)), s)
            | Inr None \<Rightarrow> (json 404 (Error ''User not found''), s)
            | Inr (Some user) \<Rightarrow>
                (case legacy_bcrypt_compare (str (b_password q)) (password user) of
                   Inl error \<Rightarrow> (json 500 (ErrorMessage ''Server error'' (message error)), s)
                 | Inr isPasswordValid \<Rightarrow>
                     if \<not> isPasswordValid
                     then (json 401 (Error ''Invalid email or password''), s)
                     else (json 200 (MessageUser ''Login successful''
                             \<lparr>pu_id = uid user, pu_username = username user,
                              pu_email = email user\<rparr>), s))))"

text \<open>
  The legacy file registers the production block (the static files and the catch-all
  \<^verbatim>\<open>app.get("*")\<close>) before its API routes, so in production every GET is answered there and
  never reaches an API route.
\<close>

definition legacy_route ::
  "conversion \<Rightarrow> bool \<Rightarrow> request \<Rightarrow> store \<Rightarrow> (response \<times> store) option" where
  "legacy_route conv production req s =
     (if production \<and> req_method req = GET then None
      else if req_method req = POST \<and> req_path req = ''/send-location''
        then Some (legacy_post_send_location conv (req_now req) (req_body req) s)
      else if req_method req = GET \<and> req_path req = ''/locations''
        then Some (legacy_get_locations s)
      else if req_method req = GET \<and> req_path req = ''/users''
        then Some (legacy_get_users s)
      else if req_method req = POST \<and> req_path req = ''/register''
        then Some (legacy_post_register (req_body req) s)
      else if req_method req = POST \<and> req_path req = ''/login''
        then Some (legacy_post_login (req_body req) s)
      else if req_method req = GET \<and> req_path req = ''/login''
        then Some (legacy_get_login (req_query req) s)
      else None)"

subsection \<open>Sequences of requests\<close>

text \<open>The store after a request: unchanged when no API route matches.\<close>

definition after :: "(response \<times> store) option \<Rightarrow> store \<Rightarrow> store" where
  "after res s = (case res of None \<Rightarrow> s | Some (r, s') \<Rightarrow> s')"

definition serve :: "lib \<Rightarrow> request list \<Rightarrow> store \<Rightarrow> store" where
  "serve L reqs s = fold (\<lambda>req s. after (route L req s) s) reqs s"

definition legacy_serve :: "conversion \<Rightarrow> bool \<Rightarrow> request list \<Rightarrow> store \<Rightarrow> store" where
  "legacy_serve conv production reqs s =
     fold (\<lambda>req s. after (legacy_route conv production req s) s) reqs s"

text \<open>A sequence of registrations on the current server, each with the salt drawn for it.\<close>

definition registrations :: "lib \<Rightarrow> (string \<times> params) list \<Rightarrow> store \<Rightarrow> store" where
  "registrations L rs s = fold (\<lambda>(salt, b) s. snd (post_register L salt b s)) rs s"

subsection \<open>What the properties speak of\<close>

text \<open>At most one User for each email address.\<close>

definition unique_emails :: "store \<Rightarrow> bool" where
  "unique_emails s = distinct (map email (users s))"

text \<open>
  A coordinate that the location service must refuse: anything but a finite number
  within \<open>[-bound, bound]\<close>.
\<close>

fun invalid_coordinate :: "real \<Rightarrow> jsval option \<Rightarrow> bool" where
  "invalid_coordinate bound (Some (JNum (Finite r))) = (r < - bound \<or> bound < r)"
| "invalid_coordinate bound v = True"

text \<open>A coordinate that is a number, \<^verbatim>\<open>null\<close> or absent: no conversion is involved.\<close>

fun number_or_missing :: "jsval option \<Rightarrow> bool" where
  "number_or_missing None = True"
| "number_or_missing (Some JNull) = True"
| "number_or_missing (Some (JNum x)) = True"
| "number_or_missing (Some v) = False"

text \<open>
  The text of an Authorization header between its first and its second space character;
  empty when the header is absent or has no space.
\<close>

fun between_spaces :: "string option \<Rightarrow> string" where
  "between_spaces None = []"
| "between_spaces (Some h) =
     takeWhile (\<lambda>c. c \<noteq> CHR '' '') (drop 1 (dropWhile (\<lambda>c. c \<noteq> CHR '' '') h))"

text \<open>Newest first.\<close>

definition descending :: "location list \<Rightarrow> bool" where
  "descending ls = sorted_wrt (\<lambda>a b. createdAt b \<le> createdAt a) ls"

text \<open>The store with every password field blanked: what two stores that differ only in
  the password fields have in common.\<close>

definition without_passwords :: "store \<Rightarrow> store" where
  "without_passwords s = s\<lparr>users := map (\<lambda>u. u\<lparr>password := []\<rparr>) (users s)\<rparr>"

text \<open>
  What the handlers rely on from the two packages. \<open>bcrypt_accepts\<close>: comparing a password
  with a hash made from it succeeds. \<open>bcrypt_one_way\<close>: a hash is never the data it was made
  from. \<open>jwt_round_trip\<close>: a token verifies under the (non-empty) secret that signed it,
  from its issue until \<open>expiresIn\<close> seconds later, and decodes to the payload signed.
  \<open>jwt_compact\<close>: a token is not empty and has no space character (it is three base64url
  parts joined by dots).
\<close>

definition bcrypt_accepts :: "lib \<Rightarrow> bool" where
  "bcrypt_accepts L =
     (\<forall>data rounds salt. bcrypt_compare L data (bcrypt_hash L data rounds salt))"

definition bcrypt_one_way :: "lib \<Rightarrow> bool" where
  "bcrypt_one_way L = (\<forall>data rounds salt. bcrypt_hash L data rounds salt \<noteq> data)"

definition jwt_round_trip :: "lib \<Rightarrow> bool" where
  "jwt_round_trip L =
     (\<forall>p secret expiresIn t t'.
        secret \<noteq> [] \<and> t \<le> t' \<and> t' div 1000 < t div 1000 + expiresIn \<longrightarrow>
        (\<exists>d. jwt_verify L (jwt_sign L p secret expiresIn t) secret t' = Inr d
             \<and> d_id d = p_id p \<and> d_email d = p_email p))"

definition jwt_compact :: "lib \<Rightarrow> bool" where
  "jwt_compact L =
     (\<forall>p secret expiresIn t.
        jwt_sign L p secret expiresIn t \<noteq> []
        \<and> CHR '' '' \<notin> set (jwt_sign L p secret expiresIn t))"

subsection \<open>A small instance of the packages\<close>

text \<open>
  An instance of \<open>lib\<close> on which the handlers can be run: a hash is the salt, a dollar sign
  and the data reversed; a token is five fields separated by dots: the id, the issue time
  and the expiry (in seconds) in unary, the secret and the email, these two with every
  space written \<open>_s\<close> and every underscore doubled.
\<close>

fun enc :: "string \<Rightarrow> string" where
  "enc [] = []"
| "enc (c # cs) =
     (if c = CHR '' '' then CHR ''_'' # CHR ''s'' # enc cs
      else if c = CHR ''_'' then CHR ''_'' # CHR ''_'' # enc cs
      else c # enc cs)"

fun dec :: "string \<Rightarrow> string" where
  "dec (c # d # cs) =
     (if c = CHR ''_'' then (if d = CHR ''s'' then CHR '' '' else d) # dec cs
      else c # dec (d # cs))"
| "dec cs = cs"

definition ref_hash :: "string \<Rightarrow> nat \<Rightarrow> string \<Rightarrow> string" where
  "ref_hash data rounds salt = salt @ CHR ''$'' # rev data"

definition ref_compare :: "string \<Rightarrow> string \<Rightarrow> bool" where
  "ref_compare data encrypted =
     (drop (length encrypted - Suc (length data)) encrypted = CHR ''$'' # rev data)"

definition ref_sign :: "payload \<Rightarrow> string \<Rightarrow> nat \<Rightarrow> nat \<Rightarrow> string" where
  "ref_sign p secret expiresIn t =
     replicate (p_id p) CHR ''i'' @ CHR ''.'' # replicate (t div 1000) CHR ''t''
       @ CHR ''.'' # replicate (t div 1000 + expiresIn) CHR ''e''
       @ CHR ''.'' # enc secret @ CHR ''.'' # enc (p_email p)"

definition token_field :: "string \<Rightarrow> string" where
  "token_field token = takeWhile (\<lambda>c. c \<noteq> CHR ''.'') token"

definition token_rest :: "string \<Rightarrow> string" where
  "token_rest token = drop 1 (dropWhile (\<lambda>c. c \<noteq> CHR ''.'') token)"

definition ref_verify :: "string \<Rightarrow> string \<Rightarrow> nat \<Rightarrow> jwt_error + decoded" where
  "ref_verify token secret t =
     (let signed = token_rest (token_rest (token_rest token));
          expiry = length (token_field (token_rest (token_rest token)))
      in if length (filter (\<lambda>c. c = CHR ''.'') token) < 4 then Inl Malformed
         else if take (Suc (length (enc secret))) signed \<noteq> enc secret @ ''.''
           then Inl InvalidSignature
         else if expiry \<le> t div 1000 then Inl Expired
         else Inr \<lparr>d_id = length (token_field token),
                   d_email = dec (drop (Suc (length (enc secret))) signed),
                   d_iat = length (token_field (token_rest token)),
                   d_exp = expiry\<rparr>)"

definition ref_lib :: lib where
  "ref_lib = \<lparr>bcrypt_hash = ref_hash, bcrypt_compare = ref_compare, jwt_sign = ref_sign,
              jwt_verify = ref_verify, JWT_SECRET = ''k''\<rparr>"

definition empty_store :: store where
  "empty_store = \<lparr>users = [], locations = [], next_id = 0, outage = None\<rparr>"

definition no_params :: params where
  "no_params = \<lparr>b_username = None, b_email = None, b_password = None,
                b_latitude = None, b_longitude = None\<rparr>"

definition alice :: params where
  "alice = no_params\<lparr>b_username := Some ''alice'', b_email := Some ''a@x.com'',
                    b_password := Some ''secret1''\<rparr>"

text \<open>Twelve samples, stamped 0 to 11, and a request with valid coordinates.\<close>

definition busy_store :: store where
  "busy_store =
     \<lparr>users = [],
      locations = map (\<lambda>n. \<lparr>lid = n, latitude = JNum (Finite 0),
                             longitude = JNum (Finite 0), createdAt = n\<rparr>) [0..<12],
      next_id = 12, outage = None\<rparr>"

definition here :: params where
  "here = no_params\<lparr>b_latitude := Some (JNum (Finite 37.77)),
                   b_longitude := Some (JNum (Finite (- 122.41)))\<rparr>"

text \<open>
  A conversion for running the handlers on bodies whose coordinates are numbers or
  booleans, where it is not consulted: it takes every string, array and object for NaN.
\<close>

definition ref_conv :: conversion where
  "ref_conv v = Inr NaN"

text \<open>Ten samples, all stamped 7.\<close>

definition crowded_store :: store where
  "crowded_store =
     \<lparr>users = [],
      locations = map (\<lambda>n. \<lparr>lid = n, latitude = JNum (Finite 0),
                             longitude = JNum (Finite 0), createdAt = 7\<rparr>) [0..<10],
      next_id = 10, outage = None\<rparr>"

text \<open>A body whose latitude is the boolean \<^verbatim>\<open>true\<close>.\<close>

definition flagged :: params where
  "flagged = no_params\<lparr>b_latitude := Some (JBool True), b_longitude := Some (JNum (Finite 0))\<rparr>"

text \<open>The small instance on a server started without \<^verbatim>\<open>JWT_SECRET\<close>.\<close>

definition unset_lib :: lib where
  "unset_lib = ref_lib\<lparr>JWT_SECRET := []\<rparr>"

text \<open>Alice's registration and her login, as requests.\<close>

definition register_alice :: request where
  "register_alice =
     \<lparr>req_method = POST, req_path = ''/register'', req_query = no_params, req_body = alice,
      req_authorization = None, req_now = 0, req_salt = ''s4lt''\<rparr>"

definition login_alice :: request where
  "login_alice = register_alice\<lparr>req_path := ''/login''\<rparr>"

section \<open>Properties\<close>

subsection \<open>The small instance satisfies what the handlers rely on\<close>

lemma token_field_replicate:
  "a \<noteq> CHR ''.'' \<Longrightarrow> token_field (replicate n a @ CHR ''.'' # ys) = replicate n a"
  unfolding token_field_def by (induction n) auto

lemma token_rest_replicate:
  "a \<noteq> CHR ''.'' \<Longrightarrow> token_rest (replicate n a @ CHR ''.'' # ys) = ys"
  unfolding token_rest_def by (induction n) auto

lemma dec_enc: "dec (enc x) = x"
proof (induction x)
  case Nil
  show ?case by simp
next
  case (Cons c cs)
  show ?case
  proof (cases "enc cs")
    case Nil
    with Cons show ?thesis by auto
  next
    case (Cons d ds)
    with Cons.IH show ?thesis by auto
  qed
qed

lemma enc_no_space: "CHR '' '' \<notin> set (enc x)"
  by (induction x) auto

lemma ref_verify_sign:
  assumes "t' div 1000 < t div 1000 + e"
  shows "ref_verify (ref_sign p k e t) k t' =
     Inr \<lparr>d_id = p_id p, d_email = p_email p, d_iat = t div 1000, d_exp = t div 1000 + e\<rparr>"
  using assms
  by (simp add: ref_verify_def ref_sign_def Let_def token_field_replicate token_rest_replicate
        dec_enc)

lemma ref_jwt_compact: "jwt_compact ref_lib"
  by (simp add: jwt_compact_def ref_lib_def ref_sign_def enc_no_space)

lemma ref_bcrypt_accepts: "bcrypt_accepts ref_lib"
  by (simp add: bcrypt_accepts_def ref_lib_def ref_compare_def ref_hash_def)

lemma ref_bcrypt_one_way: "bcrypt_one_way ref_lib"
proof -
  have "ref_hash data rounds salt \<noteq> data" for data rounds salt
  proof
    assume "ref_hash data rounds salt = data"
    then have "length (ref_hash data rounds salt) = length data" by simp
    then show False by (simp add: ref_hash_def)
  qed
  then show ?thesis
    by (simp add: bcrypt_one_way_def ref_lib_def)
qed

lemma ref_jwt_round_trip: "jwt_round_trip ref_lib"
  unfolding jwt_round_trip_def by (simp add: ref_lib_def ref_verify_sign)

subsection \<open>Validation of coordinates\<close>

text \<open>
  What the validation does refuse. When both coordinates are numbers, \<^verbatim>\<open>null\<close> or absent,
  a \<^verbatim>\<open>POST /send-location\<close> with a coordinate that is missing, not finite or out of its
  range is answered 400 and the store is left as it was.
\<close>

lemma out_of_range_number:
  "out_of_range conv (JNum x) bound = Inr (invalid_coordinate bound (Some (JNum x)))"
  by (cases x) (auto simp add: out_of_range_def)

lemma send_location_rejects_numbers:
  assumes "number_or_missing (b_latitude b)" and "number_or_missing (b_longitude b)"
    and "invalid_coordinate 90 (b_latitude b) \<or> invalid_coordinate 180 (b_longitude b)"
  shows "status (fst (legacy_post_send_location conv t b s)) = 400
         \<and> snd (legacy_post_send_location conv t b s) = s"
proof (cases "nullish (b_latitude b) \<or> nullish (b_longitude b)")
  case True
  then show ?thesis
    by (simp add: legacy_post_send_location_def json_def)
next
  case False
  with assms(1,2) obtain x y where
    fields: "b_latitude b = Some (JNum x)" "b_longitude b = Some (JNum y)"
    by (cases "b_latitude b" rule: number_or_missing.cases;
        cases "b_longitude b" rule: number_or_missing.cases) auto
  with assms(3) show ?thesis
    by (cases "invalid_coordinate 90 (Some (JNum x))")
       (simp_all add: legacy_post_send_location_def out_of_range_number json_def Let_def)
qed

text \<open>
  C3. A \<^verbatim>\<open>POST /send-location\<close> whose latitude is not a finite number must be answered 400
  and persist nothing. The handler does not do so for every such request: the global
  \<^verbatim>\<open>isFinite\<close> and the comparisons convert their argument, so the boolean \<^verbatim>\<open>true\<close>
  counts as 1 and passes the checks that the handler's comment calls a validation of number
  types. With latitude \<^verbatim>\<open>true\<close> and longitude 0 the answer is 200 and a sample is
  persisted, whatever the conversion of strings, arrays and objects.
\<close>

theorem send_location_accepts_boolean:
  "invalid_coordinate 90 (b_latitude flagged)
   \<and> legacy_post_send_location conv 5 flagged empty_store
     = (json 200 (MessageLocation ''Location saved successfully''
          \<lparr>lid = 0, latitude = JBool True, longitude = JNum (Finite 0), createdAt = 5\<rparr>),
        \<lparr>users = [],
         locations = [\<lparr>lid = 0, latitude = JBool True, longitude = JNum (Finite 0),
                       createdAt = 5\<rparr>],
         next_id = 1, outage = None\<rparr>)"
  by (simp add: legacy_post_send_location_def flagged_def no_params_def empty_store_def
        out_of_range_def Location_save_def new_Location_def Let_def)

subsection \<open>The authorization gate\<close>

lemma split_space_first:
  "split_space h =
     takeWhile (\<lambda>c. c \<noteq> CHR '' '') h
       # (case dropWhile (\<lambda>c. c \<noteq> CHR '' '') h of [] \<Rightarrow> [] | x # r \<Rightarrow> split_space r)"
  by (induction h) (auto split: list.splits)

lemma header_token_between:
  "falsy (header_token a) = (between_spaces a = [])
   \<and> str (header_token a) = between_spaces a"
proof (cases a)
  case None
  then show ?thesis by (simp add: header_token_def)
next
  case (Some h)
  show ?thesis
  proof (cases "dropWhile (\<lambda>c. c \<noteq> CHR '' '') h")
    case Nil
    have "between_spaces a = []"
      unfolding Some between_spaces.simps Nil by simp
    moreover have "split_space h = [takeWhile (\<lambda>c. c \<noteq> CHR '' '') h]"
      using split_space_first [of h] unfolding Nil by simp
    ultimately show ?thesis
      using Some by (simp add: header_token_def)
  next
    case (Cons x r)
    have "between_spaces a = takeWhile (\<lambda>c. c \<noteq> CHR '' '') r"
      unfolding Some between_spaces.simps Cons by simp
    moreover have "split_space h
        = takeWhile (\<lambda>c. c \<noteq> CHR '' '') h # split_space r"
      using split_space_first [of h] unfolding Cons by simp
    moreover have "\<exists>ws. split_space r = takeWhile (\<lambda>c. c \<noteq> CHR '' '') r # ws"
      using split_space_first [of r] by blast
    ultimately show ?thesis
      using Some by (auto simp add: header_token_def)
  qed
qed

text \<open>
  C5, as stated, fails. A header that carries a valid token after the scheme word and two
  spaces is answered 401, not handed to the handler: the middleware takes what stands
  between the first and the second space, which is empty.
\<close>

theorem authorization_gate_counterexample:
  "jwt_verify ref_lib ''i..e.k.a@x.com'' (JWT_SECRET ref_lib) 0
     = Inr \<lparr>d_id = 1, d_email = ''a@x.com'', d_iat = 0, d_exp = 1\<rparr>
   \<and> get_locations ref_lib 0 (Some ''Bearer  i..e.k.a@x.com'') empty_store
     = (json 401 (Error ''Access denied. No token provided.''), empty_store)"
  by (simp add: get_locations_def authenticateJWT_def header_token_def ref_lib_def
        ref_verify_def Let_def token_field_def token_rest_def)

text \<open>
  C5, amended. On the protected route \<^verbatim>\<open>GET /locations\<close> of the current server the
  middleware takes as the token the text of the Authorization header between its first and
  its second space character. There are three cases, and they are exhaustive. When the
  header is absent or that text is empty (the header has no space, or a space follows the
  first one at once), the middleware answers 401 itself, does not call \<^verbatim>\<open>next()\<close>, and the
  store is untouched. When that text is not empty and \<^verbatim>\<open>jwt.verify\<close> reports any error on
  it (malformed, expired, invalid signature), the middleware answers 403 itself and does
  not call \<^verbatim>\<open>next()\<close>. Otherwise it hands the decoded claims on with the request and the
  response is the handler's.
\<close>

theorem authorization_gate:
  "(between_spaces a = [] \<longrightarrow>
      authenticateJWT L t a = Respond (json 401 (Error ''Access denied. No token provided.''))
      \<and> get_locations L t a s = (json 401 (Error ''Access denied. No token provided.''), s))
   \<and> (between_spaces a \<noteq> []
        \<and> jwt_verify L (between_spaces a) (JWT_SECRET L) t = Inl err \<longrightarrow>
      authenticateJWT L t a = Respond (json 403 (Error ''Invalid token.''))
      \<and> get_locations L t a s = (json 403 (Error ''Invalid token.''), s))
   \<and> (between_spaces a \<noteq> []
        \<and> jwt_verify L (between_spaces a) (JWT_SECRET L) t = Inr u \<longrightarrow>
      authenticateJWT L t a = Next u
      \<and> get_locations L t a s = locations_handler s)"
  using header_token_between [of a]
  by (simp add: authenticateJWT_def get_locations_def Let_def)

text \<open>
  No header, and a header with two spaces before the token: 401. A token read after its
  expiry: 403. The same token in time: its claims are attached and the handler answers.
\<close>

theorem authorization_gate_witness:
  "get_locations ref_lib 0 None empty_store
     = (json 401 (Error ''Access denied. No token provided.''), empty_store)
   \<and> get_locations ref_lib 0 (Some ''Bearer  i..e.k.a@x.com'') empty_store
     = (json 401 (Error ''Access denied. No token provided.''), empty_store)
   \<and> get_locations ref_lib 1000 (Some ''Bearer i..e.k.a@x.com'') empty_store
     = (json 403 (Error ''Invalid token.''), empty_store)
   \<and> authenticateJWT ref_lib 0 (Some ''Bearer i..e.k.a@x.com'')
     = Next \<lparr>d_id = 1, d_email = ''a@x.com'', d_iat = 0, d_exp = 1\<rparr>
   \<and> get_locations ref_lib 0 (Some ''Bearer i..e.k.a@x.com'') empty_store
     = locations_handler empty_store"
  using authorization_gate [where a = None and L = ref_lib and t = 0 and s = empty_store]
    authorization_gate [where a = "Some ''Bearer  i..e.k.a@x.com''" and L = ref_lib
      and t = 0 and s = empty_store]
    authorization_gate [where a = "Some ''Bearer i..e.k.a@x.com''" and L = ref_lib
      and t = 1000 and s = empty_store and err = Expired]
    authorization_gate [where a = "Some ''Bearer i..e.k.a@x.com''" and L = ref_lib
      and t = 0 and s = empty_store
      and u = "\<lparr>d_id = 1, d_email = ''a@x.com'', d_iat = 0, d_exp = 1\<rparr>"]
  by (simp add: ref_lib_def ref_verify_def Let_def token_field_def token_rest_def)

lemma split_space_single: "CHR '' '' \<notin> set h \<Longrightarrow> split_space h = [h]"
  by (induction h) auto

lemma split_space_word:
  "CHR '' '' \<notin> set w \<Longrightarrow> split_space (w @ CHR '' '' # r) = w # split_space r"
  by (induction w) auto

text \<open>
  C10, as stated, fails. A header whose scheme word and token are separated by a tab has a
  valid JWT as its second whitespace-separated component, and is answered 401: the
  middleware splits at space characters only.
\<close>

theorem scheme_not_checked_counterexample:
  "jwt_verify ref_lib ''i..e.k.a@x.com'' (JWT_SECRET ref_lib) 0
     = Inr \<lparr>d_id = 1, d_email = ''a@x.com'', d_iat = 0, d_exp = 1\<rparr>
   \<and> authenticateJWT ref_lib 0 (Some (''Bearer'' @ [CHR 0x09] @ ''i..e.k.a@x.com''))
     = Respond (json 401 (Error ''Access denied. No token provided.''))"
  by (simp add: authenticateJWT_def header_token_def ref_lib_def ref_verify_def Let_def
        token_field_def token_rest_def)

text \<open>
  C10, amended. The middleware does not check the authentication scheme: it splits the
  header at each single space character and takes the second piece as the token. So a
  valid JWT that follows any scheme word and one space is accepted, and a header without a
  space character (\<^verbatim>\<open>Bearer\<close> alone, a bare token) is answered 401 as a missing token.
\<close>

theorem scheme_not_checked:
  "(CHR '' '' \<notin> set w \<and> CHR '' '' \<notin> set tok \<and> tok \<noteq> []
      \<and> jwt_verify L tok (JWT_SECRET L) t = Inr u \<longrightarrow>
      authenticateJWT L t (Some (w @ '' '' @ tok)) = Next u)
   \<and> (CHR '' '' \<notin> set h \<longrightarrow>
      authenticateJWT L t (Some h)
        = Respond (json 401 (Error ''Access denied. No token provided.'')))"
  by (simp add: authenticateJWT_def header_token_def Let_def split_space_single
        split_space_word)

text \<open>\<^verbatim>\<open>Basic <jwt>\<close> is accepted; \<^verbatim>\<open>Bearer\<close> alone and a bare token are answered 401.\<close>

theorem scheme_not_checked_witness:
  "authenticateJWT ref_lib 0 (Some ''Basic i..e.k.a@x.com'')
     = Next \<lparr>d_id = 1, d_email = ''a@x.com'', d_iat = 0, d_exp = 1\<rparr>
   \<and> authenticateJWT ref_lib 0 (Some ''Bearer'')
     = Respond (json 401 (Error ''Access denied. No token provided.''))
   \<and> authenticateJWT ref_lib 0 (Some ''i..e.k.a@x.com'')
     = Respond (json 401 (Error ''Access denied. No token provided.''))"
  using scheme_not_checked [where w = "''Basic''" and tok = "''i..e.k.a@x.com''"
      and L = ref_lib and t = 0 and h = "''Bearer''"
      and u = "\<lparr>d_id = 1, d_email = ''a@x.com'', d_iat = 0, d_exp = 1\<rparr>"]
    scheme_not_checked [where w = "''Basic''" and tok = "''i..e.k.a@x.com''"
      and L = ref_lib and t = 0 and h = "''i..e.k.a@x.com''"
      and u = "\<lparr>d_id = 1, d_email = ''a@x.com'', d_iat = 0, d_exp = 1\<rparr>"]
  by (simp add: ref_lib_def ref_verify_def Let_def token_field_def token_rest_def)

subsection \<open>The legacy login over GET\<close>

text \<open>
  C9, as stated, fails. A \<^verbatim>\<open>GET /login\<close> whose email matches an existing User and which
  carries no password is answered 400, not 500: the check for missing fields comes before
  the lookup and the comparison.
\<close>

theorem legacy_get_login_counterexample:
  "users (snd (legacy_post_register alice empty_store))
     = [\<lparr>uid = 0, username = ''alice'', email = ''a@x.com'', password = ''secret1''\<rparr>]
   \<and> b_email (alice\<lparr>b_password := None\<rparr>) = Some ''a@x.com''
   \<and> legacy_get_login (alice\<lparr>b_password := None\<rparr>) (snd (legacy_post_register alice empty_store))
     = (json 400 (Error ''Email and password are required''),
        snd (legacy_post_register alice empty_store))"
  by (simp add: legacy_get_login_def legacy_post_register_def alice_def no_params_def
        empty_store_def User_findOne_def User_save_def new_User_def)

text \<open>
  C9, amended. In the legacy server, every \<^verbatim>\<open>GET /login\<close> that carries a non-empty email
  and a non-empty password and whose email matches an existing User is answered 500; when
  the database is reachable the error is the ReferenceError of the unbound \<^verbatim>\<open>bcrypt\<close>. A
  \<^verbatim>\<open>GET /login\<close> without an email or without a password is answered 400, before any lookup.
  No \<^verbatim>\<open>GET /login\<close> at all is answered 200, and none changes the store.
\<close>

theorem legacy_get_login_fails:
  "(\<not> falsy (b_email q) \<and> \<not> falsy (b_password q)
      \<and> (\<exists>u\<in>set (users s). email u = str (b_email q)) \<longrightarrow>
      status (fst (legacy_get_login q s)) = 500
      \<and> (outage s = None \<longrightarrow>
           body (fst (legacy_get_login q s))
             = ErrorMessage ''Server error'' ''bcrypt is not defined''))
   \<and> (falsy (b_email q) \<or> falsy (b_password q) \<longrightarrow>
        legacy_get_login q s = (json 400 (Error ''Email and password are required''), s))
   \<and> status (fst (legacy_get_login q s)) \<noteq> 200
   \<and> snd (legacy_get_login q s) = s"
proof -
  have "find (\<lambda>u. email u = str (b_email q)) (users s) = None
        \<longleftrightarrow> \<not> (\<exists>u\<in>set (users s). email u = str (b_email q))"
    by (auto simp add: find_None_iff)
  then show ?thesis
    by (cases "find (\<lambda>u. email u = str (b_email q)) (users s)")
       (auto simp add: legacy_get_login_def User_findOne_def legacy_bcrypt_compare_def
          legacy_bcrypt_def json_def split: option.splits)
qed

text \<open>
  Alice, registered on the legacy server, logs in over GET with her own password: 500.
  Without an email: 400.
\<close>

theorem legacy_get_login_fails_witness:
  "legacy_get_login alice (snd (legacy_post_register alice empty_store))
     = (json 500 (ErrorMessage ''Server error'' ''bcrypt is not defined''),
        snd (legacy_post_register alice empty_store))
   \<and> legacy_get_login (alice\<lparr>b_email := None\<rparr>) empty_store
     = (json 400 (Error ''Email and password are required''), empty_store)"
  using legacy_get_login_fails [of alice "snd (legacy_post_register alice empty_store)"]
    legacy_get_login_fails [of "alice\<lparr>b_email := None\<rparr>" empty_store]
  by (simp add: legacy_get_login_def legacy_post_register_def alice_def no_params_def
        empty_store_def User_findOne_def User_save_def new_User_def
        legacy_bcrypt_compare_def legacy_bcrypt_def)

subsection \<open>The listing of users\<close>

lemma exclude_password:
  "exclude [''password''] (toObject u)
     = [(''_id'', ObjectId (uid u)), (''username'', String (username u)),
        (''email'', String (email u))]"
  by (simp add: exclude_def toObject_def)

lemma User_find_without_passwords:
  "User_find [''password''] (without_passwords s) = User_find [''password''] s"
  by (simp add: User_find_def without_passwords_def exclude_password comp_def
        split: option.splits)

lemma legacy_get_users_without_passwords:
  "fst (legacy_get_users (without_passwords s)) = fst (legacy_get_users s)"
  by (simp add: legacy_get_users_def User_find_without_passwords split: sum.splits)

text \<open>
  C8. The listing of \<^verbatim>\<open>GET /users\<close> does not depend on the password fields: two stores that
  differ only in the password fields of their Users get the same response. And every
  document of the listing is without a \<open>password\<close> field.
\<close>

theorem users_listing_hides_passwords:
  "(without_passwords s1 = without_passwords s2 \<longrightarrow>
      fst (legacy_get_users s1) = fst (legacy_get_users s2))
   \<and> (body (fst (legacy_get_users s)) = Users ds \<longrightarrow>
      (\<forall>d\<in>set ds. ''password'' \<notin> fst ` set d))"
proof (intro conjI impI)
  assume "without_passwords s1 = without_passwords s2"
  then have "fst (legacy_get_users (without_passwords s1))
             = fst (legacy_get_users (without_passwords s2))"
    by simp
  then show "fst (legacy_get_users s1) = fst (legacy_get_users s2)"
    by (simp only: legacy_get_users_without_passwords)
next
  assume "body (fst (legacy_get_users s)) = Users ds"
  then have "ds = map (\<lambda>u. exclude [''password''] (toObject u)) (users s)"
    by (auto simp add: legacy_get_users_def User_find_def json_def split: option.splits)
  then show "\<forall>d\<in>set ds. ''password'' \<notin> fst ` set d"
    by (auto simp add: exclude_password)
qed

text \<open>
  Alice registered with one password or with another: the listing is the same, her id,
  username and email.
\<close>

theorem users_listing_hides_passwords_witness:
  "fst (legacy_get_users (snd (legacy_post_register alice empty_store)))
     = fst (legacy_get_users
         (snd (legacy_post_register (alice\<lparr>b_password := Some ''hunter2''\<rparr>) empty_store)))
   \<and> body (fst (legacy_get_users (snd (legacy_post_register alice empty_store))))
     = Users [[(''_id'', ObjectId 0), (''username'', String ''alice''),
               (''email'', String ''a@x.com'')]]
   \<and> ''password'' \<notin> fst ` set [(''_id'', ObjectId 0), (''username'', String ''alice''),
               (''email'', String ''a@x.com'')]"
  using users_listing_hides_passwords
    [where ?s1.0 = "snd (legacy_post_register alice empty_store)"
       and ?s2.0 = "snd (legacy_post_register (alice\<lparr>b_password := Some ''hunter2''\<rparr>)
                        empty_store)"
       and s = "snd (legacy_post_register alice empty_store)"
       and ds = "[[(''_id'', ObjectId 0), (''username'', String ''alice''),
               (''email'', String ''a@x.com'')]]"]
  by (simp add: legacy_get_users_def legacy_post_register_def alice_def no_params_def
        empty_store_def User_findOne_def User_save_def new_User_def User_find_def
        without_passwords_def exclude_def toObject_def json_def)

subsection \<open>The recent samples\<close>

lemma mset_insert_desc: "mset (insert_desc x ys) = add_mset x (mset ys)"
  by (induction ys) auto

lemma set_insert_desc: "set (insert_desc x ys) = insert x (set ys)"
  by (induction ys) auto

lemma descending_insert_desc: "descending ys \<Longrightarrow> descending (insert_desc x ys)"
  unfolding descending_def
  by (induction ys) (auto simp add: set_insert_desc)

lemma mset_fold_insert_desc: "mset (fold insert_desc xs acc) = mset xs + mset acc"
  by (induction xs arbitrary: acc) (auto simp add: mset_insert_desc)

lemma descending_fold_insert_desc:
  "descending acc \<Longrightarrow> descending (fold insert_desc xs acc)"
  by (induction xs arbitrary: acc) (auto simp add: descending_insert_desc)

lemma mset_sort_desc: "mset (sort_desc xs) = mset xs"
  by (simp add: sort_desc_def mset_fold_insert_desc)

lemma descending_sort_desc: "descending (sort_desc xs)"
  unfolding sort_desc_def
  by (rule descending_fold_insert_desc) (simp add: descending_def)

lemma descending_take: "descending xs \<Longrightarrow> descending (take n xs)"
  unfolding descending_def
  by (metis append_take_drop_id sorted_wrt_append)

lemma insert_desc_newest:
  "\<forall>y\<in>set ys. createdAt y < createdAt x \<Longrightarrow> insert_desc x ys = x # ys"
  by (cases ys) auto

lemma sort_desc_snoc: "sort_desc (xs @ [x]) = insert_desc x (sort_desc xs)"
  by (simp add: sort_desc_def)

lemma set_sort_desc: "set (sort_desc xs) = set xs"
  by (metis mset_sort_desc set_mset_mset)

lemma sort_desc_newest:
  "\<forall>y\<in>set xs. createdAt y < createdAt x \<Longrightarrow> sort_desc (xs @ [x]) = x # sort_desc xs"
  by (simp add: sort_desc_snoc insert_desc_newest set_sort_desc)

lemma recent_props:
  "length (take 10 (sort_desc xs)) \<le> 10 \<and> descending (take 10 (sort_desc xs)) \<and>
   (\<exists>older. mset (take 10 (sort_desc xs) @ older) = mset xs
            \<and> descending (take 10 (sort_desc xs) @ older))"
proof -
  have "mset (take 10 (sort_desc xs) @ drop 10 (sort_desc xs)) = mset xs"
    by (simp add: mset_sort_desc)
  moreover have "descending (take 10 (sort_desc xs) @ drop 10 (sort_desc xs))"
    by (simp add: descending_sort_desc)
  ultimately have "\<exists>older. mset (take 10 (sort_desc xs) @ older) = mset xs
            \<and> descending (take 10 (sort_desc xs) @ older)"
    by blast
  then show ?thesis
    using descending_take [OF descending_sort_desc, of 10 xs] by simp
qed

lemma listing_bounded:
  assumes "body (fst (legacy_get_locations s)) = Locations xs
        \<or> body (fst (get_locations L t' a s)) = Locations xs"
  shows "length xs \<le> 10 \<and> descending xs"
proof -
  from assms have "xs = take 10 (sort_desc (locations s))"
    by (auto simp add: legacy_get_locations_def get_locations_def locations_handler_def
          authenticateJWT_def Location_find_recent_def json_def Let_def
          split: option.splits sum.splits if_splits)
  with recent_props [of "locations s"] show ?thesis
    by simp
qed

lemma insert_desc_oldest:
  "\<forall>y\<in>set ys. createdAt x \<le> createdAt y \<Longrightarrow> insert_desc x ys = ys @ [x]"
  by (induction ys) auto

lemma sort_desc_same_stamp:
  "\<forall>x\<in>set xs. createdAt x = c \<Longrightarrow> sort_desc xs = xs"
proof (induction xs rule: rev_induct)
  case Nil
  show ?case by (simp add: sort_desc_def)
next
  case (snoc x xs)
  then have "sort_desc xs = xs" by simp
  with snoc.prems show ?case
    by (simp add: sort_desc_snoc insert_desc_oldest)
qed

text \<open>
  C7, as stated, fails. Ten samples are stored, all stamped 7; a valid sample written at
  clock reading 7 is answered 200, and the listing that follows is the ten old samples:
  the new one is not in it.
\<close>

theorem list_recent_counterexample:
  "legacy_post_send_location ref_conv 7 here crowded_store
     = (json 200 (MessageLocation ''Location saved successfully''
          \<lparr>lid = 10, latitude = JNum (Finite 37.77), longitude = JNum (Finite (- 122.41)),
            createdAt = 7\<rparr>),
        crowded_store\<lparr>locations := locations crowded_store
            @ [\<lparr>lid = 10, latitude = JNum (Finite 37.77),
                 longitude = JNum (Finite (- 122.41)), createdAt = 7\<rparr>], next_id := 11\<rparr>)
   \<and> fst (legacy_get_locations (snd (legacy_post_send_location ref_conv 7 here crowded_store)))
     = json 200 (Locations (locations crowded_store))
   \<and> \<lparr>lid = 10, latitude = JNum (Finite 37.77), longitude = JNum (Finite (- 122.41)),
        createdAt = 7\<rparr> \<notin> set (locations crowded_store)"
proof -
  let ?new = "\<lparr>lid = 10, latitude = JNum (Finite 37.77), longitude = JNum (Finite (- 122.41)),
                createdAt = 7\<rparr>"
  let ?s' = "crowded_store\<lparr>locations := locations crowded_store @ [?new], next_id := 11\<rparr>"
  have sent: "legacy_post_send_location ref_conv 7 here crowded_store
     = (json 200 (MessageLocation ''Location saved successfully'' ?new), ?s')"
    by (simp add: legacy_post_send_location_def here_def no_params_def out_of_range_def
          Location_save_def new_Location_def Let_def crowded_store_def)
  have stamps: "\<forall>x\<in>set (locations crowded_store @ [?new]). createdAt x = 7"
    by (auto simp add: crowded_store_def)
  have ten: "length (locations crowded_store) = 10"
    by (simp add: crowded_store_def)
  have "sort_desc (locations crowded_store @ [?new]) = locations crowded_store @ [?new]"
    using stamps by (rule sort_desc_same_stamp)
  with ten have "fst (legacy_get_locations ?s') = json 200 (Locations (locations crowded_store))"
    by (simp add: legacy_get_locations_def Location_find_recent_def crowded_store_def)
  moreover have "?new \<notin> set (locations crowded_store)"
    by (auto simp add: crowded_store_def)
  ultimately show ?thesis
    using sent by simp
qed

text \<open>
  C7, amended. While the database is reachable, \<^verbatim>\<open>GET /locations\<close> answers 200 with at
  most 10 samples, newest first, whatever the number of samples stored: the list is the
  first ten of all stored samples put in descending order of \<open>createdAt\<close>. The legacy route
  and the current one, once the middleware has let the request through, answer alike;
  and in every state, any list either route answers with has at most 10 samples, in
  descending order. And
  a \<^verbatim>\<open>POST /send-location\<close> with a latitude in \<open>[-90, 90]\<close> and a longitude in
  \<open>[-180, 180]\<close>, stamped later than every stored sample, succeeds, and the listing that
  follows has the new sample first.
\<close>

theorem list_recent_newest_first:
  "(outage s = None \<longrightarrow>
      (\<exists>ls. legacy_get_locations s = (json 200 (Locations ls), s)
          \<and> (authenticateJWT L t' a = Next u \<longrightarrow>
               get_locations L t' a s = (json 200 (Locations ls), s))
          \<and> length ls \<le> 10 \<and> descending ls
          \<and> (\<exists>older. mset (ls @ older) = mset (locations s) \<and> descending (ls @ older))))
   \<and> (outage s = None \<and> b_latitude b = Some (JNum (Finite lat))
        \<and> b_longitude b = Some (JNum (Finite lon))
        \<and> - 90 \<le> lat \<and> lat \<le> 90 \<and> - 180 \<le> lon \<and> lon \<le> 180
        \<and> (\<forall>l\<in>set (locations s). createdAt l < t) \<longrightarrow>
      (\<exists>new s' ls.
          legacy_post_send_location conv t b s
            = (json 200 (MessageLocation ''Location saved successfully'' new), s')
          \<and> latitude new = JNum (Finite lat) \<and> longitude new = JNum (Finite lon)
          \<and> createdAt new = t
          \<and> legacy_get_locations s' = (json 200 (Locations (new # ls)), s')))
   \<and> (body (fst (legacy_get_locations s)) = Locations xs
        \<or> body (fst (get_locations L t' a s)) = Locations xs \<longrightarrow>
      length xs \<le> 10 \<and> descending xs)"
proof (intro conjI impI)
  assume up: "outage s = None"
  let ?ls = "take 10 (sort_desc (locations s))"
  have "legacy_get_locations s = (json 200 (Locations ?ls), s)"
    using up by (simp add: legacy_get_locations_def Location_find_recent_def)
  moreover have "authenticateJWT L t' a = Next u \<longrightarrow>
      get_locations L t' a s = (json 200 (Locations ?ls), s)"
    using up by (simp add: get_locations_def locations_handler_def Location_find_recent_def)
  ultimately show "\<exists>ls. legacy_get_locations s = (json 200 (Locations ls), s)
          \<and> (authenticateJWT L t' a = Next u \<longrightarrow>
               get_locations L t' a s = (json 200 (Locations ls), s))
          \<and> length ls \<le> 10 \<and> descending ls
          \<and> (\<exists>older. mset (ls @ older) = mset (locations s) \<and> descending (ls @ older))"
    using recent_props [of "locations s"] by blast
next
  assume h: "outage s = None \<and> b_latitude b = Some (JNum (Finite lat))
        \<and> b_longitude b = Some (JNum (Finite lon))
        \<and> - 90 \<le> lat \<and> lat \<le> 90 \<and> - 180 \<le> lon \<and> lon \<le> 180
        \<and> (\<forall>l\<in>set (locations s). createdAt l < t)"
  let ?new = "new_Location s t (JNum (Finite lat)) (JNum (Finite lon))"
  let ?s' = "s\<lparr>locations := locations s @ [?new], next_id := Suc (next_id s)\<rparr>"
  have post: "legacy_post_send_location conv t b s
            = (json 200 (MessageLocation ''Location saved successfully'' ?new), ?s')"
    using h by (simp add: legacy_post_send_location_def out_of_range_def Location_save_def Let_def)
  have "\<forall>y\<in>set (locations s). createdAt y < createdAt ?new"
    using h by (simp add: new_Location_def)
  then have "sort_desc (locations s @ [?new]) = ?new # sort_desc (locations s)"
    by (rule sort_desc_newest)
  then have get: "legacy_get_locations ?s'
     = (json 200 (Locations (?new # take 9 (sort_desc (locations s)))), ?s')"
    using h by (simp add: legacy_get_locations_def Location_find_recent_def)
  have "latitude ?new = JNum (Finite lat) \<and> longitude ?new = JNum (Finite lon) \<and> createdAt ?new = t"
    by (simp add: new_Location_def)
  with post get show "\<exists>new s' ls.
          legacy_post_send_location conv t b s
            = (json 200 (MessageLocation ''Location saved successfully'' new), s')
          \<and> latitude new = JNum (Finite lat) \<and> longitude new = JNum (Finite lon) \<and> createdAt new = t
          \<and> legacy_get_locations s' = (json 200 (Locations (new # ls)), s')"
    by blast
next
  assume "body (fst (legacy_get_locations s)) = Locations xs
        \<or> body (fst (get_locations L t' a s)) = Locations xs"
  then show "length xs \<le> 10"
    by (rule listing_bounded [THEN conjunct1])
next
  assume "body (fst (legacy_get_locations s)) = Locations xs
        \<or> body (fst (get_locations L t' a s)) = Locations xs"
  then show "descending xs"
    by (rule listing_bounded [THEN conjunct2])
qed

text \<open>
  Twelve samples are stored and the listing has at most ten; a sample sent at time 100 is
  the first of the next listing.
\<close>

theorem list_recent_newest_first_witness:
  "length (locations busy_store) = 12
   \<and> (\<exists>ls. legacy_get_locations busy_store = (json 200 (Locations ls), busy_store)
          \<and> length ls \<le> 10 \<and> descending ls)
   \<and> (\<exists>ls. legacy_get_locations (snd (legacy_post_send_location ref_conv 100 here busy_store))
          = (json 200 (Locations
               (\<lparr>lid = 12, latitude = JNum (Finite 37.77),
                 longitude = JNum (Finite (- 122.41)),
                 createdAt = 100\<rparr> # ls)),
             snd (legacy_post_send_location ref_conv 100 here busy_store)))"
proof -
  have fresh: "\<forall>l\<in>set (locations busy_store). createdAt l < 100"
    by (auto simp add: busy_store_def)
  have up: "outage busy_store = None"
    by (simp add: busy_store_def)
  have post: "legacy_post_send_location ref_conv 100 here busy_store
     = (json 200 (MessageLocation ''Location saved successfully''
          \<lparr>lid = 12, latitude = JNum (Finite 37.77),
                 longitude = JNum (Finite (- 122.41)), createdAt = 100\<rparr>),
        busy_store\<lparr>locations := locations busy_store
            @ [\<lparr>lid = 12, latitude = JNum (Finite 37.77),
                 longitude = JNum (Finite (- 122.41)),
                createdAt = 100\<rparr>], next_id := 13\<rparr>)"
    by (simp add: legacy_post_send_location_def here_def no_params_def out_of_range_def
          Location_save_def new_Location_def Let_def busy_store_def)
  note T = list_recent_newest_first
      [where s = busy_store and b = here and lat = "37.77" and lon = "- 122.41" and t = 100
         and conv = ref_conv
         and L = ref_lib and a = None and t' = 0
         and u = "\<lparr>d_id = 0, d_email = [], d_iat = 0, d_exp = 0\<rparr>" and xs = "[]"]
  from T up obtain ls where
    "legacy_get_locations busy_store = (json 200 (Locations ls), busy_store)"
    "length ls \<le> 10" "descending ls"
    by blast
  moreover
  have "b_latitude here = Some (JNum (Finite 37.77))
        \<and> b_longitude here = Some (JNum (Finite (- 122.41)))"
    by (simp add: here_def no_params_def)
  with T up fresh obtain new s' ls' where
    sent: "legacy_post_send_location ref_conv 100 here busy_store
       = (json 200 (MessageLocation ''Location saved successfully'' new), s')"
    and listed: "legacy_get_locations s' = (json 200 (Locations (new # ls')), s')"
    by auto
  from sent post have
    "new = \<lparr>lid = 12, latitude = JNum (Finite 37.77),
                 longitude = JNum (Finite (- 122.41)), createdAt = 100\<rparr>"
    by (simp add: json_def)
  with sent listed have "legacy_get_locations (snd (legacy_post_send_location ref_conv 100 here busy_store))
          = (json 200 (Locations
               (\<lparr>lid = 12, latitude = JNum (Finite 37.77),
                 longitude = JNum (Finite (- 122.41)),
                 createdAt = 100\<rparr> # ls')),
             snd (legacy_post_send_location ref_conv 100 here busy_store))"
    by simp
  moreover have "length (locations busy_store) = 12"
    by (simp add: busy_store_def)
  ultimately show ?thesis by blast
qed

subsection \<open>Registration\<close>

lemma post_register_201:
  assumes "post_register L salt b s = (r, s1)" and "status r = 201"
  shows "\<not> falsy (b_username b) \<and> \<not> falsy (b_email b) \<and> \<not> falsy (b_password b)
         \<and> outage s = None
         \<and> find (\<lambda>u. email u = str (b_email b)) (users s) = None
         \<and> s1 = s\<lparr>users := users s @ [new_User s (str (b_username b)) (str (b_email b))
                                          (bcrypt_hash L (str (b_password b)) 10 salt)],
                   next_id := Suc (next_id s)\<rparr>"
  using assms
  by (auto simp add: post_register_def User_findOne_def User_save_def json_def Let_def
        split: if_splits option.splits)

lemma legacy_post_register_201:
  assumes "legacy_post_register b s = (r, s1)" and "status r = 201"
  shows "\<not> falsy (b_username b) \<and> \<not> falsy (b_email b) \<and> \<not> falsy (b_password b)
         \<and> outage s = None
         \<and> find (\<lambda>u. email u = str (b_email b)) (users s) = None
         \<and> s1 = s\<lparr>users := users s @ [new_User s (str (b_username b)) (str (b_email b))
                                          (str (b_password b))],
                   next_id := Suc (next_id s)\<rparr>"
  using assms
  by (auto simp add: legacy_post_register_def User_findOne_def User_save_def json_def Let_def
        split: if_splits option.splits)

lemma find_snoc_new:
  "find P xs = None \<Longrightarrow> P x \<Longrightarrow> find P (xs @ [x]) = Some x"
  by (induction xs) (auto split: if_splits)

lemma filter_find_None: "find P xs = None \<Longrightarrow> filter P xs = []"
  by (induction xs) (auto split: if_splits)

lemma find_append_Some: "find P xs = Some u \<Longrightarrow> find P (xs @ ys) = Some u"
  by (induction xs) (auto split: if_splits)

lemma post_register_users:
  "users (snd (post_register L salt b s)) = users s
   \<or> (find (\<lambda>u. email u = str (b_email b)) (users s) = None
      \<and> users (snd (post_register L salt b s))
          = users s @ [new_User s (str (b_username b)) (str (b_email b))
                         (bcrypt_hash L (str (b_password b)) 10 salt)])"
  by (auto simp add: post_register_def User_findOne_def User_save_def Let_def
        split: option.splits)

lemma legacy_post_register_users:
  "users (snd (legacy_post_register b s)) = users s
   \<or> (find (\<lambda>u. email u = str (b_email b)) (users s) = None
      \<and> users (snd (legacy_post_register b s))
          = users s @ [new_User s (str (b_username b)) (str (b_email b)) (str (b_password b))])"
  by (auto simp add: legacy_post_register_def User_findOne_def User_save_def Let_def
        split: option.splits)

lemma post_login_store: "snd (post_login L t b s) = s"
  by (auto simp add: post_login_def User_findOne_def Let_def split: option.splits sum.splits)

lemma get_locations_store: "snd (get_locations L t a s) = s"
  by (auto simp add: get_locations_def locations_handler_def Location_find_recent_def
        split: gate.splits option.splits)

lemma legacy_post_login_store: "snd (legacy_post_login b s) = s"
  by (auto simp add: legacy_post_login_def User_findOne_def Let_def split: option.splits)

lemma legacy_get_login_store: "snd (legacy_get_login q s) = s"
  by (auto simp add: legacy_get_login_def User_findOne_def legacy_bcrypt_compare_def
        legacy_bcrypt_def split: option.splits)

lemma legacy_get_locations_store: "snd (legacy_get_locations s) = s"
  by (auto simp add: legacy_get_locations_def Location_find_recent_def split: option.splits)

lemma legacy_get_users_store: "snd (legacy_get_users s) = s"
  by (auto simp add: legacy_get_users_def User_find_def split: option.splits)

lemma legacy_post_send_location_users:
  "users (snd (legacy_post_send_location conv t b s)) = users s"
  by (auto simp add: legacy_post_send_location_def Location_save_def Let_def
        split: option.splits sum.splits bool.splits)

lemma unique_emails_snoc:
  "unique_emails s \<Longrightarrow> find (\<lambda>u. email u = e) (users s) = None \<Longrightarrow> email x = e \<Longrightarrow>
   users s' = users s @ [x] \<Longrightarrow> unique_emails s'"
  by (auto simp add: unique_emails_def find_None_iff)

lemma unique_emails_same: "unique_emails s \<Longrightarrow> users s' = users s \<Longrightarrow> unique_emails s'"
  by (simp add: unique_emails_def)

lemma post_register_unique:
  assumes "unique_emails s"
  shows "unique_emails (snd (post_register L salt b s))"
proof -
  let ?new = "new_User s (str (b_username b)) (str (b_email b))
                (bcrypt_hash L (str (b_password b)) 10 salt)"
  have "email ?new = str (b_email b)"
    by (simp add: new_User_def)
  with assms post_register_users [of L salt b s] show ?thesis
    by (blast intro: unique_emails_same unique_emails_snoc)
qed

lemma legacy_post_register_unique:
  assumes "unique_emails s"
  shows "unique_emails (snd (legacy_post_register b s))"
proof -
  let ?new = "new_User s (str (b_username b)) (str (b_email b)) (str (b_password b))"
  have "email ?new = str (b_email b)"
    by (simp add: new_User_def)
  with assms legacy_post_register_users [of b s] show ?thesis
    by (blast intro: unique_emails_same unique_emails_snoc)
qed

lemma after_None: "after None s = s"
  by (simp add: after_def)

lemma after_Some: "after (Some p) s = snd p"
  by (simp add: after_def split: prod.splits)

lemma route_unique: "unique_emails s \<Longrightarrow> unique_emails (after (route L req s) s)"
  by (simp add: route_def after_None after_Some post_register_unique post_login_store
        get_locations_store)

lemma legacy_route_unique:
  "unique_emails s \<Longrightarrow> unique_emails (after (legacy_route conv production req s) s)"
  by (auto simp add: legacy_route_def after_None after_Some legacy_post_register_unique
        legacy_post_login_store legacy_get_login_store legacy_get_locations_store
        legacy_get_users_store
        intro: unique_emails_same [OF _ legacy_post_send_location_users])

lemma serve_unique: "unique_emails s \<Longrightarrow> unique_emails (serve L reqs s)"
  unfolding serve_def
  by (induction reqs arbitrary: s) (simp_all add: route_unique)

lemma legacy_serve_unique:
  "unique_emails s \<Longrightarrow> unique_emails (legacy_serve conv production reqs s)"
  unfolding legacy_serve_def
  by (induction reqs arbitrary: s) (simp_all add: legacy_route_unique)

text \<open>
  C6. On either server, when a registration has succeeded, a second registration with the
  same email (and a username and a password) is answered 400 with the error that the email
  is already registered, the store is left as it was, and it holds exactly one User with
  that email. And whatever requests either server answers, in whatever order, a store
  with at most one User for each email address stays so.
\<close>

theorem one_user_per_email:
  "(post_register L salt b s = (r, s1) \<and> status r = 201 \<and> b_email b' = b_email b
      \<and> \<not> falsy (b_username b') \<and> \<not> falsy (b_password b') \<longrightarrow>
      post_register L salt' b' s1 = (json 400 (Error ''Email is already registered.''), s1)
      \<and> length (filter (\<lambda>u. email u = str (b_email b)) (users s1)) = 1)
   \<and> (legacy_post_register b s = (r, s1) \<and> status r = 201 \<and> b_email b' = b_email b
      \<and> \<not> falsy (b_username b') \<and> \<not> falsy (b_password b') \<longrightarrow>
      legacy_post_register b' s1 = (json 400 (Error ''Email is already registered''), s1)
      \<and> length (filter (\<lambda>u. email u = str (b_email b)) (users s1)) = 1)
   \<and> (unique_emails s \<longrightarrow>
      unique_emails (serve L reqs s) \<and> unique_emails (legacy_serve conv production reqs s))"
proof (intro conjI impI)
  assume h: "post_register L salt b s = (r, s1) \<and> status r = 201 \<and> b_email b' = b_email b
      \<and> \<not> falsy (b_username b') \<and> \<not> falsy (b_password b')"
  let ?new = "new_User s (str (b_username b)) (str (b_email b))
                (bcrypt_hash L (str (b_password b)) 10 salt)"
  from h post_register_201 [of L salt b s r s1]
  have first: "\<not> falsy (b_email b)" "outage s = None"
      "find (\<lambda>u. email u = str (b_email b)) (users s) = None"
      "s1 = s\<lparr>users := users s @ [?new], next_id := Suc (next_id s)\<rparr>"
    by simp_all
  have new: "email ?new = str (b_email b)"
    by (simp add: new_User_def)
  from first new have found: "find (\<lambda>u. email u = str (b_email b)) (users s1) = Some ?new"
    by (simp add: find_snoc_new)
  from first new show "length (filter (\<lambda>u. email u = str (b_email b)) (users s1)) = 1"
    by (simp add: filter_find_None)
  from h first found
  show "post_register L salt' b' s1 = (json 400 (Error ''Email is already registered.''), s1)"
    by (simp add: post_register_def User_findOne_def)
next
  assume h: "legacy_post_register b s = (r, s1) \<and> status r = 201 \<and> b_email b' = b_email b
      \<and> \<not> falsy (b_username b') \<and> \<not> falsy (b_password b')"
  let ?new = "new_User s (str (b_username b)) (str (b_email b)) (str (b_password b))"
  from h legacy_post_register_201 [of b s r s1]
  have first: "\<not> falsy (b_email b)" "outage s = None"
      "find (\<lambda>u. email u = str (b_email b)) (users s) = None"
      "s1 = s\<lparr>users := users s @ [?new], next_id := Suc (next_id s)\<rparr>"
    by simp_all
  have new: "email ?new = str (b_email b)"
    by (simp add: new_User_def)
  from first new have found: "find (\<lambda>u. email u = str (b_email b)) (users s1) = Some ?new"
    by (simp add: find_snoc_new)
  from first new show "length (filter (\<lambda>u. email u = str (b_email b)) (users s1)) = 1"
    by (simp add: filter_find_None)
  from h first found
  show "legacy_post_register b' s1 = (json 400 (Error ''Email is already registered''), s1)"
    by (simp add: legacy_post_register_def User_findOne_def)
next
  assume "unique_emails s"
  then show "unique_emails (serve L reqs s)"
    by (rule serve_unique)
next
  assume "unique_emails s"
  then show "unique_emails (legacy_serve conv production reqs s)"
    by (rule legacy_serve_unique)
qed

lemma alice_registered:
  "post_register ref_lib ''s4lt'' alice empty_store
     = (json 201 (Message ''User registered successfully.''),
        \<lparr>users = [\<lparr>uid = 0, username = ''alice'', email = ''a@x.com'',
                    password = ''s4lt$1terces''\<rparr>],
         locations = [], next_id = 1, outage = None\<rparr>)"
  by (simp add: post_register_def alice_def no_params_def empty_store_def User_findOne_def
        User_save_def new_User_def ref_lib_def ref_hash_def)

lemma legacy_alice_registered:
  "legacy_post_register alice empty_store
     = (json 201 (MessageUser ''User registered successfully''
          \<lparr>pu_id = 0, pu_username = ''alice'', pu_email = ''a@x.com''\<rparr>),
        \<lparr>users = [\<lparr>uid = 0, username = ''alice'', email = ''a@x.com'',
                    password = ''secret1''\<rparr>],
         locations = [], next_id = 1, outage = None\<rparr>)"
  by (simp add: legacy_post_register_def alice_def no_params_def empty_store_def
        User_findOne_def User_save_def new_User_def)

text \<open>
  Alice registers twice, on each server: the second call is refused and one Alice is
  stored.
\<close>

theorem one_user_per_email_witness:
  "post_register ref_lib ''pepper'' alice (snd (post_register ref_lib ''s4lt'' alice empty_store))
     = (json 400 (Error ''Email is already registered.''),
        snd (post_register ref_lib ''s4lt'' alice empty_store))
   \<and> length (filter (\<lambda>u. email u = ''a@x.com'')
        (users (snd (post_register ref_lib ''s4lt'' alice empty_store)))) = 1
   \<and> legacy_post_register alice (snd (legacy_post_register alice empty_store))
     = (json 400 (Error ''Email is already registered''),
        snd (legacy_post_register alice empty_store))
   \<and> unique_emails (serve ref_lib [register_alice, register_alice] empty_store)
   \<and> unique_emails (legacy_serve ref_conv False [register_alice, register_alice] empty_store)"
proof -
  note current = one_user_per_email
      [where L = ref_lib and salt = "''s4lt''" and b = alice and s = empty_store
         and r = "fst (post_register ref_lib ''s4lt'' alice empty_store)"
         and ?s1.0 = "snd (post_register ref_lib ''s4lt'' alice empty_store)"
         and b' = alice and salt' = "''pepper''"
         and reqs = "[register_alice, register_alice]" and production = False
         and conv = ref_conv]
  note legacy = one_user_per_email
      [where L = ref_lib and salt = "''s4lt''" and b = alice and s = empty_store
         and r = "fst (legacy_post_register alice empty_store)"
         and ?s1.0 = "snd (legacy_post_register alice empty_store)"
         and b' = alice and salt' = "''pepper''"
         and reqs = "[register_alice, register_alice]" and production = False
         and conv = ref_conv]
  have fields: "\<not> falsy (b_username alice)" "\<not> falsy (b_password alice)"
      "str (b_email alice) = ''a@x.com''"
    by (simp_all add: alice_def no_params_def)
  have created: "status (fst (post_register ref_lib ''s4lt'' alice empty_store)) = 201"
      "status (fst (legacy_post_register alice empty_store)) = 201"
    by (simp_all add: alice_registered legacy_alice_registered json_def)
  have start: "unique_emails empty_store"
    by (simp add: unique_emails_def empty_store_def)
  from current fields created start
  have "post_register ref_lib ''pepper'' alice
          (snd (post_register ref_lib ''s4lt'' alice empty_store))
     = (json 400 (Error ''Email is already registered.''),
        snd (post_register ref_lib ''s4lt'' alice empty_store))
   \<and> length (filter (\<lambda>u. email u = ''a@x.com'')
        (users (snd (post_register ref_lib ''s4lt'' alice empty_store)))) = 1
   \<and> unique_emails (serve ref_lib [register_alice, register_alice] empty_store)
   \<and> unique_emails (legacy_serve ref_conv False [register_alice, register_alice] empty_store)"
    by simp
  moreover from legacy fields created
  have "legacy_post_register alice (snd (legacy_post_register alice empty_store))
     = (json 400 (Error ''Email is already registered''),
        snd (legacy_post_register alice empty_store))"
    by simp
  ultimately show ?thesis by simp
qed

text \<open>
  C1, as stated, fails. The legacy server stores the password as it was supplied: after
  Alice's registration the password field of her record is her plaintext password.
\<close>

theorem legacy_register_counterexample:
  "b_password alice = Some ''secret1''
   \<and> legacy_post_register alice empty_store
     = (json 201 (MessageUser ''User registered successfully''
          \<lparr>pu_id = 0, pu_username = ''alice'', pu_email = ''a@x.com''\<rparr>),
        \<lparr>users = [\<lparr>uid = 0, username = ''alice'', email = ''a@x.com'',
                    password = ''secret1''\<rparr>],
         locations = [], next_id = 1, outage = None\<rparr>)"
  by (simp add: legacy_post_register_def alice_def no_params_def empty_store_def
        User_findOne_def User_save_def new_User_def)

lemma registrations_Nil: "registrations L [] s = s"
  by (simp add: registrations_def)

lemma registrations_snoc:
  "registrations L (rs @ [(salt, b)]) s = snd (post_register L salt b (registrations L rs s))"
  by (simp add: registrations_def)

lemma registrations_hash:
  assumes "u \<in> set (users (registrations L rs s))"
  shows "u \<in> set (users s)
         \<or> (\<exists>(salt, b)\<in>set rs.
               username u = str (b_username b) \<and> email u = str (b_email b)
               \<and> password u = bcrypt_hash L (str (b_password b)) 10 salt
               \<and> (bcrypt_one_way L \<longrightarrow> password u \<noteq> str (b_password b)))"
  using assms
proof (induction rs arbitrary: u rule: rev_induct)
  case Nil
  then show ?case by (simp add: registrations_Nil)
next
  case (snoc x rs)
  obtain salt b where x: "x = (salt, b)" by (cases x)
  let ?s = "registrations L rs s"
  let ?new = "new_User ?s (str (b_username b)) (str (b_email b))
                (bcrypt_hash L (str (b_password b)) 10 salt)"
  from snoc.prems x have "u \<in> set (users (snd (post_register L salt b ?s)))"
    by (simp add: registrations_snoc)
  with post_register_users [of L salt b ?s] have "u \<in> set (users ?s) \<or> u = ?new"
    by auto
  then show ?case
  proof
    assume "u \<in> set (users ?s)"
    with snoc.IH [of u] show ?thesis by auto
  next
    assume "u = ?new"
    then have "username u = str (b_username b) \<and> email u = str (b_email b)
               \<and> password u = bcrypt_hash L (str (b_password b)) 10 salt
               \<and> (bcrypt_one_way L \<longrightarrow> password u \<noteq> str (b_password b))"
      by (simp add: new_User_def bcrypt_one_way_def)
    with x show ?thesis by auto
  qed
qed

text \<open>
  C1, amended. On the current server, after any sequence of registrations, every User
  that was not in the store before has, as its password field, the bcrypt hash (10 rounds,
  the salt drawn for the call) of the password supplied at its registration; and that
  field differs from the plaintext, bcrypt never returning the data it is given. On the
  legacy server a successful registration appends a User whose password field is the
  password as supplied.
\<close>

theorem register_stores_hash:
  "(u \<in> set (users (registrations L rs s)) \<longrightarrow>
      u \<in> set (users s)
      \<or> (\<exists>(salt, b)\<in>set rs.
            username u = str (b_username b) \<and> email u = str (b_email b)
            \<and> password u = bcrypt_hash L (str (b_password b)) 10 salt
            \<and> (bcrypt_one_way L \<longrightarrow> password u \<noteq> str (b_password b))))
   \<and> (legacy_post_register b s = (r, s1) \<and> status r = 201 \<longrightarrow>
      (\<exists>v. users s1 = users s @ [v] \<and> email v = str (b_email b)
           \<and> password v = str (b_password b)))"
proof (rule conjI)
  show "u \<in> set (users (registrations L rs s)) \<longrightarrow>
      u \<in> set (users s)
      \<or> (\<exists>(salt, b)\<in>set rs.
            username u = str (b_username b) \<and> email u = str (b_email b)
            \<and> password u = bcrypt_hash L (str (b_password b)) 10 salt
            \<and> (bcrypt_one_way L \<longrightarrow> password u \<noteq> str (b_password b)))"
    using registrations_hash [of u L rs s] by blast
next
  show "legacy_post_register b s = (r, s1) \<and> status r = 201 \<longrightarrow>
      (\<exists>v. users s1 = users s @ [v] \<and> email v = str (b_email b)
           \<and> password v = str (b_password b))"
    using legacy_post_register_201 [of b s r s1]
    by (auto simp add: new_User_def)
qed

text \<open>
  Alice's record on the current server holds the hash of her password, not the password;
  on the legacy server it holds the password.
\<close>

theorem register_stores_hash_witness:
  "\<lparr>uid = 0, username = ''alice'', email = ''a@x.com'', password = ''s4lt$1terces''\<rparr>
     \<in> set (users (registrations ref_lib [(''s4lt'', alice)] empty_store))
   \<and> bcrypt_one_way ref_lib
   \<and> ''s4lt$1terces'' = bcrypt_hash ref_lib (str (b_password alice)) 10 ''s4lt''
   \<and> ''s4lt$1terces'' \<noteq> str (b_password alice)
   \<and> (\<exists>v. users (snd (legacy_post_register alice empty_store)) = users empty_store @ [v]
          \<and> password v = str (b_password alice))"
proof -
  let ?u = "\<lparr>uid = 0, username = ''alice'', email = ''a@x.com'', password = ''s4lt$1terces''\<rparr>"
  note T = register_stores_hash
    [where u = ?u and L = ref_lib and rs = "[(''s4lt'', alice)]" and s = empty_store
       and b = alice and r = "fst (legacy_post_register alice empty_store)"
       and ?s1.0 = "snd (legacy_post_register alice empty_store)"]
  have stored: "?u \<in> set (users (registrations ref_lib [(''s4lt'', alice)] empty_store))"
    by (simp add: registrations_def alice_registered)
  have fresh: "?u \<notin> set (users empty_store)"
    by (simp add: empty_store_def)
  have created: "status (fst (legacy_post_register alice empty_store)) = 201"
    by (simp add: legacy_alice_registered json_def)
  from T stored fresh ref_bcrypt_one_way
  have "''s4lt$1terces'' = bcrypt_hash ref_lib (str (b_password alice)) 10 ''s4lt''
        \<and> ''s4lt$1terces'' \<noteq> str (b_password alice)"
    by auto
  moreover from T created
  have "\<exists>v. users (snd (legacy_post_register alice empty_store)) = users empty_store @ [v]
          \<and> password v = str (b_password alice)"
    by auto
  ultimately show ?thesis
    using stored ref_bcrypt_one_way by blast
qed

subsection \<open>Login\<close>

text \<open>
  C2, as stated, fails. The legacy \<^verbatim>\<open>POST /login\<close> compares the supplied password with the
  stored one as plain strings: Alice's record holds her password in plaintext, her login
  with that string succeeds and with another string is refused.
\<close>

theorem legacy_login_counterexample:
  "users (snd (legacy_post_register alice empty_store))
     = [\<lparr>uid = 0, username = ''alice'', email = ''a@x.com'', password = ''secret1''\<rparr>]
   \<and> legacy_post_login alice (snd (legacy_post_register alice empty_store))
     = (json 200 (MessageUser ''Login successful''
          \<lparr>pu_id = 0, pu_username = ''alice'', pu_email = ''a@x.com''\<rparr>),
        snd (legacy_post_register alice empty_store))
   \<and> legacy_post_login (alice\<lparr>b_password := Some ''secret2''\<rparr>)
        (snd (legacy_post_register alice empty_store))
     = (json 401 (Error ''Invalid email or password''),
        snd (legacy_post_register alice empty_store))"
  by (simp add: legacy_post_login_def legacy_post_register_def alice_def no_params_def
        empty_store_def User_findOne_def User_save_def new_User_def)

lemma post_login_token:
  assumes "post_login L t b s = (r, s')" and "body r = MessageTokenUser m tok pu"
  shows "s' = s \<and> (\<exists>u\<in>set (users s).
           email u = str (b_email b)
           \<and> bcrypt_compare L (str (b_password b)) (password u)
           \<and> tok = jwt_sign L \<lparr>p_id = uid u, p_email = email u\<rparr> (JWT_SECRET L) 3600 t
           \<and> pu = \<lparr>pu_id = uid u, pu_username = username u, pu_email = email u\<rparr>)"
proof -
  have "find (\<lambda>u. email u = str (b_email b)) (users s) = Some u \<Longrightarrow>
        u \<in> set (users s) \<and> email u = str (b_email b)" for u
    by (auto simp add: find_Some_iff)
  with assms show ?thesis
    by (auto simp add: post_login_def User_findOne_def sign_token_def json_def Let_def
          split: if_splits option.splits)
qed

lemma legacy_post_login_200:
  assumes "legacy_post_login b s = (r, s')" and "status r = 200"
  shows "s' = s \<and> (\<exists>u\<in>set (users s).
           email u = str (b_email b) \<and> password u = str (b_password b))"
proof -
  have "find (\<lambda>u. email u = str (b_email b)) (users s) = Some u \<Longrightarrow>
        u \<in> set (users s) \<and> email u = str (b_email b)" for u
    by (auto simp add: find_Some_iff)
  with assms show ?thesis
    by (auto simp add: legacy_post_login_def User_findOne_def json_def Let_def
          split: if_splits option.splits)
qed

lemma post_register_no_token:
  "body (fst (post_register L salt b s)) \<noteq> MessageTokenUser m tok pu"
  by (auto simp add: post_register_def User_findOne_def User_save_def json_def Let_def
        split: option.splits)

lemma get_locations_no_token:
  "body (fst (get_locations L t a s)) \<noteq> MessageTokenUser m tok pu"
  by (auto simp add: get_locations_def authenticateJWT_def locations_handler_def
        Location_find_recent_def json_def Let_def split: option.splits sum.splits)

text \<open>
  C2, amended. On the current server no route reads the query string: the answer to a
  request does not depend on it. And a response that carries a token, the only sign of an
  authenticated login, comes from \<^verbatim>\<open>POST /login\<close> alone, for an email taken from the
  request body that a stored User has, and a password taken from the body that
  \<^verbatim>\<open>bcrypt.compare\<close> accepts against that User's stored hash. On the legacy server a
  \<^verbatim>\<open>POST /login\<close> answered 200 is one whose password equals, as a string, the password field
  of the stored User with that email.
\<close>

theorem login_only_by_post_body:
  "route L (req\<lparr>req_query := q\<rparr>) s = route L req s
   \<and> (route L req s = Some (r, s') \<and> body r = MessageTokenUser m tok pu \<longrightarrow>
        req_method req = POST \<and> req_path req = ''/login'' \<and> s' = s
        \<and> (\<exists>u\<in>set (users s).
              email u = str (b_email (req_body req))
              \<and> bcrypt_compare L (str (b_password (req_body req))) (password u)
              \<and> tok = jwt_sign L \<lparr>p_id = uid u, p_email = email u\<rparr> (JWT_SECRET L) 3600
                         (req_now req)
              \<and> pu = \<lparr>pu_id = uid u, pu_username = username u, pu_email = email u\<rparr>))
   \<and> (legacy_post_login b s = (r, s') \<and> status r = 200 \<longrightarrow>
        s' = s \<and> (\<exists>u\<in>set (users s).
                    email u = str (b_email b) \<and> password u = str (b_password b)))"
proof (intro conjI)
  show "route L (req\<lparr>req_query := q\<rparr>) s = route L req s"
    by (simp add: route_def)
next
  show "legacy_post_login b s = (r, s') \<and> status r = 200 \<longrightarrow>
        s' = s \<and> (\<exists>u\<in>set (users s).
                    email u = str (b_email b) \<and> password u = str (b_password b))"
    using legacy_post_login_200 [of b s r s'] by blast
next
  show "route L req s = Some (r, s') \<and> body r = MessageTokenUser m tok pu \<longrightarrow>
        req_method req = POST \<and> req_path req = ''/login'' \<and> s' = s
        \<and> (\<exists>u\<in>set (users s).
              email u = str (b_email (req_body req))
              \<and> bcrypt_compare L (str (b_password (req_body req))) (password u)
              \<and> tok = jwt_sign L \<lparr>p_id = uid u, p_email = email u\<rparr> (JWT_SECRET L) 3600
                         (req_now req)
              \<and> pu = \<lparr>pu_id = uid u, pu_username = username u, pu_email = email u\<rparr>)"
  proof (rule impI)
  assume h: "route L req s = Some (r, s') \<and> body r = MessageTokenUser m tok pu"
  have not_register: "\<not> (req_method req = POST \<and> req_path req = ''/register'')"
  proof
    assume "req_method req = POST \<and> req_path req = ''/register''"
    with h have "post_register L (req_salt req) (req_body req) s = (r, s')"
      by (simp add: route_def)
    with h post_register_no_token [of L "req_salt req" "req_body req" s m tok pu]
    show False by simp
  qed
  have not_locations: "\<not> (req_method req = GET \<and> req_path req = ''/locations'')"
  proof
    assume "req_method req = GET \<and> req_path req = ''/locations''"
    with h have "get_locations L (req_now req) (req_authorization req) s = (r, s')"
      by (simp add: route_def)
    with h get_locations_no_token [of L "req_now req" "req_authorization req" s m tok pu]
    show False by simp
  qed
  from h not_register not_locations
  have login: "req_method req = POST \<and> req_path req = ''/login''"
    and "post_login L (req_now req) (req_body req) s = (r, s')"
    by (auto simp add: route_def split: if_splits)
  with h post_login_token [of L "req_now req" "req_body req" s r s' m tok pu]
  show "req_method req = POST \<and> req_path req = ''/login'' \<and> s' = s
        \<and> (\<exists>u\<in>set (users s).
              email u = str (b_email (req_body req))
              \<and> bcrypt_compare L (str (b_password (req_body req))) (password u)
              \<and> tok = jwt_sign L \<lparr>p_id = uid u, p_email = email u\<rparr> (JWT_SECRET L) 3600
                         (req_now req)
              \<and> pu = \<lparr>pu_id = uid u, pu_username = username u, pu_email = email u\<rparr>)"
    by simp
  qed
qed

lemma alice_logs_in:
  "post_login ref_lib 0 alice (snd (post_register ref_lib ''s4lt'' alice empty_store))
     = (json 200 (MessageTokenUser ''Login successful.''
          (ref_sign \<lparr>p_id = 0, p_email = ''a@x.com''\<rparr> ''k'' 3600 0)
          \<lparr>pu_id = 0, pu_username = ''alice'', pu_email = ''a@x.com''\<rparr>),
        snd (post_register ref_lib ''s4lt'' alice empty_store))"
  by (simp add: alice_registered)
     (simp add: post_login_def alice_def no_params_def User_findOne_def ref_lib_def
        ref_compare_def sign_token_def)

text \<open>
  Alice's login is answered the same with her credentials repeated in the query string;
  it is a POST to \<^verbatim>\<open>/login\<close>, and bcrypt accepts the password of its body. On the legacy
  server her password is the password field of her record.
\<close>

theorem login_only_by_post_body_witness:
  "route ref_lib (login_alice\<lparr>req_query := alice\<rparr>)
       (snd (post_register ref_lib ''s4lt'' alice empty_store))
     = route ref_lib login_alice (snd (post_register ref_lib ''s4lt'' alice empty_store))
   \<and> req_method login_alice = POST \<and> req_path login_alice = ''/login''
   \<and> (\<exists>u\<in>set (users (snd (post_register ref_lib ''s4lt'' alice empty_store))).
         email u = str (b_email (req_body login_alice))
         \<and> bcrypt_compare ref_lib (str (b_password (req_body login_alice))) (password u))
   \<and> (\<exists>u\<in>set (users (snd (legacy_post_register alice empty_store))).
         email u = str (b_email alice) \<and> password u = str (b_password alice))"
proof -
  let ?S = "snd (post_register ref_lib ''s4lt'' alice empty_store)"
  let ?tok = "ref_sign \<lparr>p_id = 0, p_email = ''a@x.com''\<rparr> ''k'' 3600 0"
  let ?pu = "\<lparr>pu_id = 0, pu_username = ''alice'', pu_email = ''a@x.com''\<rparr>"
  let ?r = "json 200 (MessageTokenUser ''Login successful.'' ?tok ?pu)"
  let ?T = "snd (legacy_post_register alice empty_store)"
  have "route ref_lib login_alice ?S = Some (?r, ?S)"
    by (simp add: route_def login_alice_def register_alice_def alice_logs_in)
  moreover have "body ?r = MessageTokenUser ''Login successful.'' ?tok ?pu"
    by (simp add: json_def)
  ultimately have current:
    "route ref_lib (login_alice\<lparr>req_query := alice\<rparr>) ?S = route ref_lib login_alice ?S
     \<and> req_method login_alice = POST \<and> req_path login_alice = ''/login''
     \<and> (\<exists>u\<in>set (users ?S).
           email u = str (b_email (req_body login_alice))
           \<and> bcrypt_compare ref_lib (str (b_password (req_body login_alice))) (password u))"
    using login_only_by_post_body
      [where L = ref_lib and req = login_alice and q = alice and s = ?S and r = ?r
         and s' = ?S and m = "''Login successful.''" and tok = ?tok and pu = ?pu]
    by blast
  have "legacy_post_login alice ?T
          = (fst (legacy_post_login alice ?T), snd (legacy_post_login alice ?T))"
    by simp
  moreover have "status (fst (legacy_post_login alice ?T)) = 200"
    by (simp add: legacy_alice_registered)
       (simp add: legacy_post_login_def alice_def no_params_def User_findOne_def json_def)
  ultimately have "\<exists>u\<in>set (users ?T).
      email u = str (b_email alice) \<and> password u = str (b_password alice)"
    using login_only_by_post_body
      [where b = alice and s = ?T and r = "fst (legacy_post_login alice ?T)"
         and s' = "snd (legacy_post_login alice ?T)"]
    by blast
  with current show ?thesis by blast
qed

lemma post_register_outage: "outage (snd (post_register L salt b s)) = outage s"
  by (auto simp add: post_register_def User_findOne_def User_save_def Let_def
        split: option.splits)

lemma route_keeps:
  "outage (after (route L req s) s) = outage s
   \<and> (\<exists>more. users (after (route L req s) s) = users s @ more)"
  using post_register_users [of L "req_salt req" "req_body req" s]
  by (auto simp add: route_def after_None after_Some post_register_outage post_login_store
        get_locations_store)

lemma serve_keeps:
  "outage (serve L reqs s) = outage s \<and> (\<exists>more. users (serve L reqs s) = users s @ more)"
proof (induction reqs arbitrary: s)
  case Nil
  show ?case by (simp add: serve_def)
next
  case (Cons req reqs)
  let ?s = "after (route L req s) s"
  have step: "serve L (req # reqs) s = serve L reqs ?s"
    by (simp add: serve_def)
  from route_keeps [of L req s] obtain more where
    "outage ?s = outage s" "users ?s = users s @ more" by blast
  moreover from Cons.IH [of ?s] obtain more' where
    "outage (serve L reqs ?s) = outage ?s" "users (serve L reqs ?s) = users ?s @ more'"
    by blast
  ultimately show ?case
    by (simp add: step)
qed

lemma unset_lib_contracts:
  "bcrypt_accepts unset_lib" "jwt_round_trip unset_lib" "jwt_compact unset_lib"
  using ref_bcrypt_accepts ref_jwt_round_trip ref_jwt_compact
  by (simp_all add: unset_lib_def bcrypt_accepts_def jwt_round_trip_def jwt_compact_def)

text \<open>
  C4, as stated, fails. On a server started without \<^verbatim>\<open>JWT_SECRET\<close>, with packages that
  do what they are for, Alice's registration succeeds and her login with the same
  credentials is answered 500: \<^verbatim>\<open>jwt.sign\<close> throws for want of a secret and the handler's
  \<^verbatim>\<open>catch\<close> answers.
\<close>

theorem register_login_counterexample:
  "bcrypt_accepts unset_lib \<and> jwt_round_trip unset_lib \<and> jwt_compact unset_lib
   \<and> post_register unset_lib ''s4lt'' alice empty_store
     = (json 201 (Message ''User registered successfully.''),
        \<lparr>users = [\<lparr>uid = 0, username = ''alice'', email = ''a@x.com'',
                    password = ''s4lt$1terces''\<rparr>],
         locations = [], next_id = 1, outage = None\<rparr>)
   \<and> post_login unset_lib 0 alice (snd (post_register unset_lib ''s4lt'' alice empty_store))
     = (json 500 (ErrorMessage ''Server error'' ''secretOrPrivateKey must have a value''),
        snd (post_register unset_lib ''s4lt'' alice empty_store))"
  by (simp add: unset_lib_contracts)
     (simp add: post_register_def post_login_def alice_def no_params_def empty_store_def
        User_findOne_def User_save_def new_User_def unset_lib_def ref_lib_def ref_hash_def
        ref_compare_def sign_token_def)

lemma bearer_token:
  assumes "tok \<noteq> []" and "CHR '' '' \<notin> set tok"
  shows "header_token (Some (''Bearer '' @ tok)) = Some tok"
proof -
  have "split_space (''Bearer'' @ CHR '' '' # tok) = ''Bearer'' # split_space tok"
    by (rule split_space_word) simp
  with assms(2) show ?thesis
    by (simp add: header_token_def split_space_single)
qed

text \<open>
  C4, amended. On the current server, when a registration has succeeded, then after any
  further requests a login with the same email and password has one of two answers. When
  \<^verbatim>\<open>JWT_SECRET\<close> is set (and not empty), it is answered 200 with a token and the registered
  User's id, username and email; and the authorization middleware, given the header
  \<^verbatim>\<open>Bearer <token>\<close> from the token's issue until 3600 seconds later, verifies the token
  and attaches claims with the registered User's id and email. When \<^verbatim>\<open>JWT_SECRET\<close> is
  unset or empty, the login is answered 500. The packages are taken to do what they are
  for: bcrypt accepts a password against its own hash, a token verifies under the secret
  that signed it until it expires, and a token is not empty and has no space.
\<close>

theorem register_login_round_trip:
  assumes "bcrypt_accepts L" and "jwt_round_trip L" and "jwt_compact L"
    and "post_register L salt b s = (r, s1)" and "status r = 201"
    and "s2 = serve L reqs s1"
    and "b_email b' = b_email b" and "b_password b' = b_password b"
    and "t \<le> t'" and "t' div 1000 < t div 1000 + 3600"
  shows "\<exists>u. u \<in> set (users s1) \<and> username u = str (b_username b)
           \<and> email u = str (b_email b)
           \<and> (JWT_SECRET L \<noteq> [] \<longrightarrow>
                (\<exists>tok d.
                   post_login L t b' s2
                     = (json 200 (MessageTokenUser ''Login successful.'' tok
                          \<lparr>pu_id = uid u, pu_username = username u, pu_email = email u\<rparr>),
                        s2)
                   \<and> jwt_verify L tok (JWT_SECRET L) t' = Inr d
                   \<and> authenticateJWT L t' (Some (''Bearer '' @ tok)) = Next d
                   \<and> d_id d = uid u \<and> d_email d = email u))
           \<and> (JWT_SECRET L = [] \<longrightarrow>
                post_login L t b' s2
                  = (json 500 (ErrorMessage ''Server error''
                       ''secretOrPrivateKey must have a value''), s2))"
proof -
  let ?u = "new_User s (str (b_username b)) (str (b_email b))
              (bcrypt_hash L (str (b_password b)) 10 salt)"
  let ?p = "\<lparr>p_id = uid ?u, p_email = email ?u\<rparr>"
  let ?tok = "jwt_sign L ?p (JWT_SECRET L) 3600 t"
  from assms(4,5) post_register_201 [of L salt b s r s1]
  have first: "\<not> falsy (b_email b)" "\<not> falsy (b_password b)" "outage s = None"
      "find (\<lambda>u. email u = str (b_email b)) (users s) = None"
      "s1 = s\<lparr>users := users s @ [?u], next_id := Suc (next_id s)\<rparr>"
    by simp_all
  have u: "username ?u = str (b_username b)" "email ?u = str (b_email b)"
      "password ?u = bcrypt_hash L (str (b_password b)) 10 salt"
    by (simp_all add: new_User_def)
  from first u have "find (\<lambda>u. email u = str (b_email b)) (users s1) = Some ?u"
    by (simp add: find_snoc_new)
  moreover from serve_keeps [of L reqs s1] assms(6) obtain more where
    later: "outage s2 = outage s1" "users s2 = users s1 @ more"
    by blast
  ultimately have found: "find (\<lambda>u. email u = str (b_email b)) (users s2) = Some ?u"
    by (simp add: find_append_Some)
  from first later have up: "outage s2 = None"
    by simp
  from assms(1) u have accepted: "bcrypt_compare L (str (b_password b)) (password ?u)"
    by (simp add: bcrypt_accepts_def)
  from first found up accepted assms(7,8)
  have login: "post_login L t b' s2
      = (case sign_token L ?p (JWT_SECRET L) 3600 t of
           Inl error \<Rightarrow> (json 500 (ErrorMessage ''Server error'' (message error)), s2)
         | Inr token \<Rightarrow>
             (json 200 (MessageTokenUser ''Login successful.'' token
                \<lparr>pu_id = uid ?u, pu_username = username ?u, pu_email = email ?u\<rparr>), s2))"
    by (simp add: post_login_def User_findOne_def Let_def)
  have unset: "post_login L t b' s2
      = (json 500 (ErrorMessage ''Server error'' ''secretOrPrivateKey must have a value''), s2)"
    if "JWT_SECRET L = []"
    using that login by (simp add: sign_token_def)
  have set: "\<exists>tok d.
      post_login L t b' s2
        = (json 200 (MessageTokenUser ''Login successful.'' tok
             \<lparr>pu_id = uid ?u, pu_username = username ?u, pu_email = email ?u\<rparr>), s2)
      \<and> jwt_verify L tok (JWT_SECRET L) t' = Inr d
      \<and> authenticateJWT L t' (Some (''Bearer '' @ tok)) = Next d
      \<and> d_id d = uid ?u \<and> d_email d = email ?u"
    if secret: "JWT_SECRET L \<noteq> []"
  proof -
    from secret login have issued: "post_login L t b' s2
        = (json 200 (MessageTokenUser ''Login successful.'' ?tok
             \<lparr>pu_id = uid ?u, pu_username = username ?u, pu_email = email ?u\<rparr>), s2)"
      by (simp add: sign_token_def)
    from assms(2,9,10) secret obtain d where
      d: "jwt_verify L ?tok (JWT_SECRET L) t' = Inr d" "d_id d = p_id ?p"
         "d_email d = p_email ?p"
      unfolding jwt_round_trip_def by blast
    from assms(3) have "?tok \<noteq> []" "CHR '' '' \<notin> set ?tok"
      unfolding jwt_compact_def by blast+
    then have "header_token (Some (''Bearer '' @ ?tok)) = Some ?tok"
      by (rule bearer_token)
    with d(1) \<open>?tok \<noteq> []\<close> have "authenticateJWT L t' (Some (''Bearer '' @ ?tok)) = Next d"
      by (simp add: authenticateJWT_def Let_def)
    with issued d show ?thesis
      by auto
  qed
  from first have "?u \<in> set (users s1)"
    by simp
  with u set unset show ?thesis
    by blast
qed

text \<open>
  Alice registers, logs in once, and logs in again at second 5: the middleware verifies
  the token she gets one millisecond before the hour is over. On the server without a
  secret her login is answered 500.
\<close>

theorem register_login_round_trip_witness:
  "(\<exists>u tok d.
     u \<in> set (users (snd (post_register ref_lib ''s4lt'' alice empty_store)))
     \<and> username u = ''alice'' \<and> email u = ''a@x.com''
     \<and> post_login ref_lib 5000 alice
          (serve ref_lib [login_alice] (snd (post_register ref_lib ''s4lt'' alice empty_store)))
        = (json 200 (MessageTokenUser ''Login successful.'' tok
             \<lparr>pu_id = uid u, pu_username = username u, pu_email = email u\<rparr>),
           serve ref_lib [login_alice] (snd (post_register ref_lib ''s4lt'' alice empty_store)))
     \<and> authenticateJWT ref_lib 3604999 (Some (''Bearer '' @ tok)) = Next d
     \<and> d_id d = uid u \<and> d_email d = email u)
   \<and> post_login unset_lib 5000 alice
        (serve unset_lib [] (snd (post_register unset_lib ''s4lt'' alice empty_store)))
     = (json 500 (ErrorMessage ''Server error'' ''secretOrPrivateKey must have a value''),
        serve unset_lib [] (snd (post_register unset_lib ''s4lt'' alice empty_store)))"
proof -
  let ?S = "snd (post_register ref_lib ''s4lt'' alice empty_store)"
  let ?T = "snd (post_register unset_lib ''s4lt'' alice empty_store)"
  have registered: "post_register ref_lib ''s4lt'' alice empty_store
     = (fst (post_register ref_lib ''s4lt'' alice empty_store), ?S)"
    by simp
  have created: "status (fst (post_register ref_lib ''s4lt'' alice empty_store)) = 201"
    by (simp add: alice_registered json_def)
  have times: "(5000::nat) \<le> 3604999" "(3604999::nat) div 1000 < 5000 div 1000 + 3600"
    by simp_all
  have fields: "str (b_username alice) = ''alice''" "str (b_email alice) = ''a@x.com''"
    by (simp_all add: alice_def no_params_def)
  have secret: "JWT_SECRET ref_lib \<noteq> []"
    by (simp add: ref_lib_def)
  have current: "\<exists>u tok d.
     u \<in> set (users ?S) \<and> username u = ''alice'' \<and> email u = ''a@x.com''
     \<and> post_login ref_lib 5000 alice (serve ref_lib [login_alice] ?S)
        = (json 200 (MessageTokenUser ''Login successful.'' tok
             \<lparr>pu_id = uid u, pu_username = username u, pu_email = email u\<rparr>),
           serve ref_lib [login_alice] ?S)
     \<and> authenticateJWT ref_lib 3604999 (Some (''Bearer '' @ tok)) = Next d
     \<and> d_id d = uid u \<and> d_email d = email u"
    using register_login_round_trip
      [OF ref_bcrypt_accepts ref_jwt_round_trip ref_jwt_compact registered created refl refl
          refl times, of "[login_alice]"] secret
    unfolding fields by blast
  have unset_registered: "post_register unset_lib ''s4lt'' alice empty_store
     = (fst (post_register unset_lib ''s4lt'' alice empty_store), ?T)"
    by simp
  have unset_created:
    "status (fst (post_register unset_lib ''s4lt'' alice empty_store)) = 201"
    by (simp add: post_register_def alice_def no_params_def empty_store_def
          User_findOne_def User_save_def json_def)
  have "JWT_SECRET unset_lib = []"
    by (simp add: unset_lib_def)
  with register_login_round_trip
      [OF unset_lib_contracts unset_registered unset_created refl refl refl times, of "[]"]
  have "post_login unset_lib 5000 alice (serve unset_lib [] ?T)
     = (json 500 (ErrorMessage ''Server error'' ''secretOrPrivateKey must have a value''),
        serve unset_lib [] ?T)"
    by blast
  with current show ?thesis
    by blast
qed

end
